theory Spec2Isabelle
  imports Complex_Main
begin

section \<open>Python, numpy and pandas primitives used by the pipeline\<close>

text \<open>
  Every raise of the source is a value: a function that can fail returns
  \<open>error + 'a\<close>, with \<open>Inl\<close> for the exception. \<open>SystemExit\<close> is what
  \<open>sys.exit()\<close> raises; \<open>StatisticsError\<close> is what \<open>statistics.median\<close> raises
  on empty data.
\<close>

datatype error = SystemExit | ValueError | IndexError | KeyError | StatisticsError

definition ebind :: "error + 'a \<Rightarrow> ('a \<Rightarrow> error + 'b) \<Rightarrow> error + 'b" where
  "ebind m f = (case m of Inl e \<Rightarrow> Inl e | Inr x \<Rightarrow> f x)"

text \<open>A comprehension or a \<open>for\<close> loop whose body may raise stops at the first raise.\<close>

fun mapM :: "('a \<Rightarrow> error + 'b) \<Rightarrow> 'a list \<Rightarrow> error + 'b list" where
  "mapM f [] = Inr []"
| "mapM f (x # xs) =
     (case f x of
        Inl e \<Rightarrow> Inl e
      | Inr y \<Rightarrow> (case mapM f xs of Inl e \<Rightarrow> Inl e | Inr ys \<Rightarrow> Inr (y # ys)))"

fun foldM :: "('a \<Rightarrow> 's \<Rightarrow> error + 's) \<Rightarrow> 'a list \<Rightarrow> 's \<Rightarrow> error + 's" where
  "foldM f [] s = Inr s"
| "foldM f (x # xs) s = (case f x s of Inl e \<Rightarrow> Inl e | Inr s' \<Rightarrow> foldM f xs s')"

text \<open>
  \<open>range(start, stop, step)\<close>: a zero step raises ValueError; a positive step counts up
  while the value is below \<open>stop\<close>, a negative one counts down while it is above.
  \<open>range(n)\<close> is \<open>range(0, n, 1)\<close>.
\<close>

definition py_range :: "int \<Rightarrow> int \<Rightarrow> int \<Rightarrow> error + int list" where
  "py_range start stop step =
     (if step = 0 then Inl ValueError
      else if 0 < step then
        Inr (map (\<lambda>k. start + int k * step) [0..<nat ((stop - start + step - 1) div step)])
      else
        Inr (map (\<lambda>k. start + int k * step) [0..<nat ((start - stop - step - 1) div (- step))]))"

definition py_range1 :: "int \<Rightarrow> int list" where
  "py_range1 n = map int [0..<nat n]"

text \<open>
  A slice bound of a sequence of length \<open>n\<close>: a negative bound counts from the end, and
  every bound is clamped into \<open>0..n\<close>. \<open>xs[lo:hi]\<close> with an omitted bound is
  \<open>None\<close>. Slicing never raises.
\<close>

definition py_bound :: "nat \<Rightarrow> int \<Rightarrow> nat" where
  "py_bound n i = (if i < 0 then nat (int n + i) else min (nat i) n)"

definition py_slice :: "int option \<Rightarrow> int option \<Rightarrow> 'a list \<Rightarrow> 'a list" where
  "py_slice lo hi xs =
     (let n = length xs;
          a = (case lo of None \<Rightarrow> 0 | Some i \<Rightarrow> py_bound n i);
          b = (case hi of None \<Rightarrow> n | Some j \<Rightarrow> py_bound n j)
      in take (b - a) (drop a xs))"

text \<open>\<open>xs[i]\<close>: a negative index counts from the end; out of range raises IndexError.\<close>

definition py_index :: "'a list \<Rightarrow> int \<Rightarrow> error + 'a" where
  "py_index xs i =
     (if 0 \<le> i \<and> i < int (length xs) then Inr (xs ! nat i)
      else if i < 0 \<and> - int (length xs) \<le> i then Inr (xs ! nat (int (length xs) + i))
      else Inl IndexError)"

section \<open>split.py: sliding windows of one series\<close>

text \<open>
  \<^verbatim>\<open>X = [returns[i:i + n_steps] for i in range(len(returns) - n_steps)]\<close>
  \<^verbatim>\<open>y = [targets[i + n_steps] for i in range(len(targets) - n_steps)]\<close>
  The two series arrive as arrays (\<open>to_numpy\<close>); the element read of \<open>y\<close> can raise.
\<close>

definition get_sequences :: "'a list \<Rightarrow> 'b list \<Rightarrow> int \<Rightarrow> error + ('a list list \<times> 'b list)" where
  "get_sequences returns targets n_steps =
     (let X = map (\<lambda>i. py_slice (Some i) (Some (i + n_steps)) returns)
                (py_range1 (int (length returns) - n_steps))
      in ebind (mapM (\<lambda>i. py_index targets (i + n_steps))
                  (py_range1 (int (length targets) - n_steps)))
           (\<lambda>y. Inr (X, y)))"

section \<open>Tables\<close>

text \<open>
  A pandas DataFrame: the length of its row index, and its columns in order, each a label
  with its cells. \<open>len(df)\<close> is \<open>nrows\<close>, also for a frame without columns;
  \<open>pd.DataFrame()\<close> has no rows and no columns. Every DataFrame satisfies \<open>wf_df\<close>:
  the labels are unique (the spec's company identifiers) and every column is as long as
  the index. Row labels are never read by the code (all row access is positional), so
  the index is kept by its length only. Writing CSV checkpoints is outside the model.
\<close>

record 'a dataframe =
  nrows :: nat
  columns :: "(string \<times> 'a list) list"

definition wf_df :: "'a dataframe \<Rightarrow> bool" where
  "wf_df d \<longleftrightarrow>
     distinct (map fst (columns d)) \<and> list_all (\<lambda>p. length (snd p) = nrows d) (columns d)"

definition df_empty :: "'a dataframe" where
  "df_empty = \<lparr>nrows = 0, columns = []\<rparr>"

text \<open>\<open>df[lo:hi]\<close>: the positional row slice.\<close>

definition df_slice :: "int option \<Rightarrow> int option \<Rightarrow> 'a dataframe \<Rightarrow> 'a dataframe" where
  "df_slice lo hi d =
     \<lparr>nrows = length (py_slice lo hi [0..<nrows d]),
      columns = map (\<lambda>p. (fst p, py_slice lo hi (snd p))) (columns d)\<rparr>"

text \<open>\<open>df[col]\<close> as a read: the column of that label, KeyError when there is none.\<close>

definition df_getitem :: "'a dataframe \<Rightarrow> string \<Rightarrow> error + 'a list" where
  "df_getitem d c = (case map_of (columns d) c of None \<Rightarrow> Inl KeyError | Some xs \<Rightarrow> Inr xs)"

text \<open>
  \<open>df[col] = array\<close>: on the empty frame the array fixes the index; otherwise its
  length must be the index's (ValueError if not), and the column is replaced where the
  label exists and appended at the end where it does not. (On a frame with columns but no
  rows pandas pads instead of raising; \<open>get_returns\<close> never gets there, its columns
  have one length.)
\<close>

fun set_column :: "string \<Rightarrow> 'a list \<Rightarrow> (string \<times> 'a list) list \<Rightarrow> (string \<times> 'a list) list" where
  "set_column c v [] = [(c, v)]"
| "set_column c v (p # ps) = (if fst p = c then (c, v) # ps else p # set_column c v ps)"

definition df_setitem :: "'a dataframe \<Rightarrow> string \<Rightarrow> 'a list \<Rightarrow> error + 'a dataframe" where
  "df_setitem d c v =
     (if columns d = [] \<and> nrows d = 0 then Inr \<lparr>nrows = length v, columns = [(c, v)]\<rparr>
      else if length v = nrows d then Inr (d\<lparr>columns := set_column c v (columns d)\<rparr>)
      else Inl ValueError)"

text \<open>\<open>df.iloc[t]\<close>: row \<open>t\<close> across the columns, as a read and as an assignment.\<close>

definition df_iloc :: "'a dataframe \<Rightarrow> nat \<Rightarrow> error + 'a list" where
  "df_iloc d t = (if t < nrows d then Inr (map (\<lambda>p. snd p ! t) (columns d)) else Inl IndexError)"

definition df_iloc_set :: "'a dataframe \<Rightarrow> nat \<Rightarrow> 'a list \<Rightarrow> error + 'a dataframe" where
  "df_iloc_set d t row =
     (if t < nrows d \<and> length row = length (columns d)
      then Inr (d\<lparr>columns := map2 (\<lambda>p v. (fst p, (snd p)[t := v])) (columns d) row\<rparr>)
      else if t < nrows d then Inl ValueError else Inl IndexError)"

text \<open>
  \<open>df[lo:hi] = array\<close>: the rows of the slice are overwritten by a two-dimensional
  array of the same shape, given here column by column.
\<close>

definition df_set_rows :: "int option \<Rightarrow> int option \<Rightarrow> 'a list list \<Rightarrow> 'a dataframe \<Rightarrow> error + 'a dataframe" where
  "df_set_rows lo hi arr d =
     (let n = nrows d;
          a = (case lo of None \<Rightarrow> 0 | Some i \<Rightarrow> py_bound n i);
          b = max a (case hi of None \<Rightarrow> n | Some j \<Rightarrow> py_bound n j)
      in if length arr = length (columns d) \<and> list_all (\<lambda>col. length col = b - a) arr
         then Inr (d\<lparr>columns :=
                map2 (\<lambda>p col. (fst p, take a (snd p) @ col @ drop b (snd p))) (columns d) arr\<rparr>)
         else Inl ValueError)"

text \<open>\<open>df.dropna(axis=1)\<close>: the columns with a missing cell go, the index stays.\<close>

definition dropna_columns :: "('a \<Rightarrow> bool) \<Rightarrow> 'a dataframe \<Rightarrow> 'a dataframe" where
  "dropna_columns isna d = d\<lparr>columns := filter (\<lambda>p. \<not> list_ex isna (snd p)) (columns d)\<rparr>"

section \<open>data\_returns.py: returns\<close>

text \<open>
  numpy's elementwise division of two one-dimensional arrays: equal lengths divide
  pairwise, a length-one array is broadcast, anything else raises ValueError. The cell
  arithmetic is that of the cell type: the model is polymorphic in it, and which cells
  count as missing is the parameter \<open>isna\<close>.
\<close>

definition np_divide :: "'a::inverse list \<Rightarrow> 'a list \<Rightarrow> error + 'a list" where
  "np_divide xs ys =
     (if length xs = length ys then Inr (map2 (\<lambda>x y. x / y) xs ys)
      else if length xs = 1 then Inr (map (\<lambda>y. hd xs / y) ys)
      else if length ys = 1 then Inr (map (\<lambda>x. x / hd ys) xs)
      else Inl ValueError)"

text \<open>
  The body of the loop of \<open>get_returns\<close>:
  \<^verbatim>\<open>today = dataframe[col]; tomorrow = today[m:]\<close>
  \<^verbatim>\<open>df[col] = (np.array(tomorrow) / np.array(today)[:-m]) - 1\<close>
\<close>

definition returns_step ::
  "'a::{inverse,minus,one} dataframe \<Rightarrow> int \<Rightarrow> string \<Rightarrow> 'a dataframe \<Rightarrow> error + 'a dataframe" where
  "returns_step dataframe m col df =
     ebind (df_getitem dataframe col) (\<lambda>today.
       let tomorrow = py_slice (Some m) None today in
       ebind (np_divide tomorrow (py_slice None (Some (- m)) today)) (\<lambda>q.
         df_setitem df col (map (\<lambda>x. x - 1) q)))"

text \<open>
  \<open>get_returns(dataframe, _, m, no_missing)\<close>. The guard raises ValueError for
  \<open>m < 0\<close>, catches it, prints it and calls \<open>sys.exit()\<close>. The loop runs over
  \<open>dataframe.columns[1:]\<close>.
\<close>

definition get_returns ::
  "('a \<Rightarrow> bool) \<Rightarrow> 'a::{inverse,minus,one} dataframe \<Rightarrow> int \<Rightarrow> bool \<Rightarrow> error + 'a dataframe" where
  "get_returns isna dataframe m no_missing =
     (if m < 0 then Inl SystemExit
      else ebind (foldM (returns_step dataframe m)
                    (py_slice (Some 1) None (map fst (columns dataframe))) df_empty)
             (\<lambda>df. Inr (if no_missing then dropna_columns isna df else df)))"

section \<open>data\_returns.py: binary targets\<close>

text \<open>
  The cells of a return table are floating-point numbers, and a table from
  \<open>get_returns(no_missing=False)\<close> can hold NaN. The model does not fix the cell type: it
  takes the operations the code applies to cells as a parameter. \<open>cell_le\<close> is Python's
  \<open>x <= y\<close>, \<open>cell_sorted\<close> is \<open>sorted(data)\<close> and \<open>cell_mean\<close> is
  \<open>(a + b) / 2\<close>, with whatever rounding the cell type has. \<open>cell_lt\<close> (Python's
  \<open>x < y\<close>) and \<open>cell_isnan\<close> are not used by the code; they are there to say what a
  failed \<open>x <= y\<close> means. The labels are the 0 and the 1 of the cell type.
\<close>

record 'a cell_ops =
  cell_le :: "'a \<Rightarrow> 'a \<Rightarrow> bool"
  cell_lt :: "'a \<Rightarrow> 'a \<Rightarrow> bool"
  cell_isnan :: "'a \<Rightarrow> bool"
  cell_sorted :: "'a list \<Rightarrow> 'a list"
  cell_mean :: "'a \<Rightarrow> 'a \<Rightarrow> 'a"


text \<open>
  \<open>statistics.median\<close>: sorts; raises on no data; the middle element for an odd count,
  the mean of the two middle elements for an even one.
\<close>

definition py_median :: "'a cell_ops \<Rightarrow> 'a list \<Rightarrow> error + 'a" where
  "py_median ops xs =
     (let data = cell_sorted ops xs; n = length data
      in if n = 0 then Inl StatisticsError
         else if n mod 2 = 1 then Inr (data ! (n div 2))
         else Inr (cell_mean ops (data ! (n div 2 - 1)) (data ! (n div 2))))"

text \<open>
  \<open>binary_targets\<close> binds \<open>df = dataframe\<close> and assigns into \<open>df.iloc[time_idx]\<close>: the
  table is an object in a store, and the function takes and returns references into
  it. One iteration reads the row through \<open>dataframe\<close>, and writes the labels through
  \<open>df\<close>:
  \<^verbatim>\<open>compare_value = median(list(dataframe.iloc[time_idx].values))\<close>
  \<^verbatim>\<open>df.iloc[time_idx] = dataframe.iloc[time_idx].apply(lambda x: 0 if x <= compare_value else 1)\<close>
\<close>

type_synonym 'a store = "nat \<Rightarrow> 'a dataframe option"

definition label_cell :: "'a::zero_neq_one cell_ops \<Rightarrow> 'a \<Rightarrow> 'a \<Rightarrow> 'a" where
  "label_cell ops compare_value x = (if cell_le ops x compare_value then 0 else 1)"

definition binary_step ::
  "'a::zero_neq_one cell_ops \<Rightarrow> nat \<Rightarrow> nat \<Rightarrow> nat \<Rightarrow> 'a store \<Rightarrow> error + 'a store" where
  "binary_step ops dataframe df time_idx h =
     (case h dataframe of
        None \<Rightarrow> Inl KeyError
      | Some d \<Rightarrow>
          ebind (df_iloc d time_idx) (\<lambda>compare_list.
          ebind (py_median ops compare_list) (\<lambda>compare_value.
          ebind (df_iloc d time_idx) (\<lambda>row.
            (case h df of
               None \<Rightarrow> Inl KeyError
             | Some d' \<Rightarrow>
                 ebind (df_iloc_set d' time_idx (map (label_cell ops compare_value) row))
                   (\<lambda>d''. Inr (h(df \<mapsto> d''))))))))"

text \<open>The loop keeps the store it has reached when an iteration raises.\<close>

fun binary_loop ::
  "'a::zero_neq_one cell_ops \<Rightarrow> nat \<Rightarrow> nat \<Rightarrow> nat list \<Rightarrow> 'a store
     \<Rightarrow> 'a store \<times> error option" where
  "binary_loop ops dataframe df [] h = (h, None)"
| "binary_loop ops dataframe df (t # ts) h =
     (case binary_step ops dataframe df t h of
        Inl e \<Rightarrow> (h, Some e)
      | Inr h' \<Rightarrow> binary_loop ops dataframe df ts h')"

text \<open>
  \<open>binary_targets(dataframe, _)\<close>: the store after the call, and the reference returned
  (or the exception). \<open>range(dataframe.shape[0])\<close> is evaluated once, before the loop.
\<close>

definition binary_targets ::
  "'a::zero_neq_one cell_ops \<Rightarrow> 'a store \<Rightarrow> nat \<Rightarrow> 'a store \<times> (error + nat)" where
  "binary_targets ops h dataframe =
     (case h dataframe of
        None \<Rightarrow> (h, Inl KeyError)
      | Some d0 \<Rightarrow>
          (let df = dataframe in
           case binary_loop ops dataframe df [0..<nrows d0] h of
             (h', Some e) \<Rightarrow> (h', Inl e)
           | (h', None) \<Rightarrow> (h', Inr df)))"

text \<open>
  What the spec says the labelled table is, to compare the loop with: every cell of the
  first \<open>k\<close> rows replaced by its label against the median of its own row of the
  given table, the other rows as they were. \<open>row_median\<close> is the median of row
  \<open>t\<close> (any value when the row has no cell).
\<close>

definition row_median :: "'a::zero_neq_one cell_ops \<Rightarrow> 'a dataframe \<Rightarrow> nat \<Rightarrow> 'a" where
  "row_median ops d t =
     (case py_median ops (map (\<lambda>p. snd p ! t) (columns d)) of Inl e \<Rightarrow> 0 | Inr med \<Rightarrow> med)"

definition label_rows :: "'a::zero_neq_one cell_ops \<Rightarrow> nat \<Rightarrow> 'a dataframe \<Rightarrow> 'a dataframe" where
  "label_rows ops k d =
     d\<lparr>columns :=
         map (\<lambda>p. (fst p,
                   map (\<lambda>t. if t < k then label_cell ops (row_median ops d t) (snd p ! t)
                             else snd p ! t)
                     [0..<length (snd p)]))
           (columns d)\<rparr>"

text \<open>
  Two cell types to run the model on. \<open>real_cells\<close> are exact numbers: every cell
  compares, nothing rounds. \<open>cell\<close> adds NaN to them, with the comparisons of a float
  (false whenever a NaN is involved) and a NaN mean when an argument is NaN;
  \<open>nan_sorted\<close> sorts by insertion with \<open><\<close>, which is the sorted row when no cell is
  NaN (on a row with several cells and a NaN, the order Python's sort leaves depends on its
  algorithm, and the examples do not use such rows).
\<close>

definition real_cells :: "real cell_ops" where
  "real_cells =
     \<lparr>cell_le = (\<lambda>x y. x \<le> y), cell_lt = (\<lambda>x y. x < y), cell_isnan = (\<lambda>x. False),
      cell_sorted = sort, cell_mean = (\<lambda>a b. (a + b) / 2)\<rparr>"

datatype cell = NaN | Num real

instantiation cell :: zero_neq_one
begin

definition zero_cell :: cell where
  "zero_cell = Num 0"

definition one_cell :: cell where
  "one_cell = Num 1"

instance
  by standard (simp add: zero_cell_def one_cell_def)

end







section \<open>split.py: study periods and tensors\<close>

text \<open>
  \<^verbatim>\<open>len_total_leave = len(df_returns) - len_period\<close>
  \<^verbatim>\<open>periods_ret = [df_returns[i:len_period + i] for i in range(0, len_total_leave + 1, len_test)]\<close>
  and the same comprehension over \<open>df_binary\<close>, with the same range.
\<close>

definition split_Tperiod ::
  "'a dataframe \<Rightarrow> 'b dataframe \<Rightarrow> int \<Rightarrow> int \<Rightarrow> error + ('a dataframe list \<times> 'b dataframe list)" where
  "split_Tperiod df_returns df_binary len_period len_test =
     (let len_total_leave = int (nrows df_returns) - len_period in
      ebind (py_range 0 (len_total_leave + 1) len_test) (\<lambda>is.
        Inr (map (\<lambda>i. df_slice (Some i) (Some (len_period + i)) df_returns) is,
             map (\<lambda>i. df_slice (Some i) (Some (len_period + i)) df_binary) is)))"

text \<open>
  \<open>np.array\<close> of nested lists needs them regular (ValueError if not); the reshapes of
  \<open>get_train_set\<close> read \<open>shape[1]\<close> and \<open>shape[2]\<close>, which raise IndexError on an
  array of fewer dimensions: no company, or no sequence.
\<close>

definition regular :: "'a list list \<Rightarrow> bool" where
  "regular xss = (case xss of [] \<Rightarrow> True | xs # _ \<Rightarrow> list_all (\<lambda>ys. length ys = length xs) xss)"

definition np_array3 :: "'a list list list \<Rightarrow> error + 'a list list list" where
  "np_array3 X = (if regular X \<and> regular (concat X) then Inr X else Inl ValueError)"

definition np_array2 :: "'a list list \<Rightarrow> error + 'a list list" where
  "np_array2 y = (if regular y then Inr y else Inl ValueError)"

definition reshape_X :: "'a list list list \<Rightarrow> error + 'a list list" where
  "reshape_X X = (if X = [] \<or> concat X = [] then Inl IndexError else Inr (concat X))"

definition reshape_y :: "'a list list \<Rightarrow> error + 'a list" where
  "reshape_y y = (if y = [] then Inl IndexError else Inr (concat y))"

text \<open>
  \<open>get_train_set\<close>: the type test of the source compares \<open>str(type(x))\<close> with a string
  it never equals, so both arguments are always wrapped by \<open>pd.DataFrame\<close>, which
  keeps a frame as it is. \<open>get_sequences\<close> is called with its default \<open>n_steps = 240\<close>.
\<close>

definition get_train_set :: "'a dataframe \<Rightarrow> 'b dataframe \<Rightarrow> error + ('a list list \<times> 'b list)" where
  "get_train_set df_returns1 df_binary1 =
     ebind (mapM (\<lambda>comp.
              ebind (df_getitem df_returns1 comp) (\<lambda>r.
              ebind (df_getitem df_binary1 comp) (\<lambda>b.
                get_sequences r b 240)))
            (map fst (columns df_returns1))) (\<lambda>seqs.
     ebind (np_array3 (map fst seqs)) (\<lambda>list_tot_X.
     ebind (np_array2 (map snd seqs)) (\<lambda>list_tot_y.
     ebind (reshape_X list_tot_X) (\<lambda>X.
     ebind (reshape_y list_tot_y) (\<lambda>y. Inr (X, y))))))"

text \<open>
  sklearn's \<open>StandardScaler\<close> is not part of the repository: it is a parameter. It keeps
  one statistic per column, \<open>fit_column\<close> computes it (or rejects the column) and
  \<open>transform_cell\<close> applies it to a cell. The scaler object's state is the statistics of
  its last fit. \<open>fit_transform\<close> fits anew, whatever the state, and transforms its
  argument with the new statistics; it raises on a table without rows or columns. The
  result is an array, given column by column.
\<close>

record ('a, 's) standard_scaler =
  fit_column :: "'a list \<Rightarrow> 's option"
  transform_cell :: "'s \<Rightarrow> 'a \<Rightarrow> 'a"

definition fit_transform ::
  "('a, 's) standard_scaler \<Rightarrow> 's list option \<Rightarrow> 'a dataframe
     \<Rightarrow> error + ('s list option \<times> 'a list list)" where
  "fit_transform sc state d =
     (if nrows d = 0 \<or> columns d = [] then Inl ValueError
      else case those (map (\<lambda>p. fit_column sc (snd p)) (columns d)) of
             None \<Rightarrow> Inl ValueError
           | Some stats \<Rightarrow>
               Inr (Some stats,
                    map2 (\<lambda>s p. map (transform_cell sc s) (snd p)) stats (columns d)))"

text \<open>
  What the spec says of one segment, to compare \<open>all_data_LSTM\<close> with: the table
  standardized by a scaler of its own, that is, every column transformed with the
  statistic fit on that very column of that very table.
\<close>

definition standardize :: "('a, 's) standard_scaler \<Rightarrow> 'a dataframe \<Rightarrow> error + 'a dataframe" where
  "standardize sc d =
     (if nrows d = 0 \<or> columns d = [] then Inl ValueError
      else case those (map (\<lambda>p. fit_column sc (snd p)) (columns d)) of
             None \<Rightarrow> Inl ValueError
           | Some stats \<Rightarrow>
               Inr (d\<lparr>columns :=
                      map2 (\<lambda>s p. (fst p, map (transform_cell sc s) (snd p))) stats (columns d)\<rparr>))"

text \<open>The table \<open>d\<close> with the cells of the array \<open>arr\<close> (column by column) in place of its own.\<close>

definition df_with_values :: "'a dataframe \<Rightarrow> 'a list list \<Rightarrow> 'a dataframe" where
  "df_with_values d arr = d\<lparr>columns := map2 (\<lambda>p col. (fst p, col)) (columns d) arr\<rparr>"

text \<open>
  \<open>all_data_LSTM\<close>: one scaler object is created and \<open>fit_transform\<close> is called on it
  twice. \<open>T1_input\<close> is updated in place by the two slice assignments; the train and
  test tables are slices of it taken after the first and after the second assignment.
  \<open>split_Tperiod\<close> is called with its defaults 1308 and 327. The last reshape adds a
  channel axis of length one.
\<close>

definition all_data_LSTM ::
  "('a, 's) standard_scaler \<Rightarrow> 'a dataframe \<Rightarrow> 'b dataframe \<Rightarrow> int \<Rightarrow> int
     \<Rightarrow> error + ('a list list list \<times> 'b list \<times> 'a list list list \<times> 'b list)" where
  "all_data_LSTM sc df_returns df_binary period len_train =
     (let scaler = None in
      ebind (split_Tperiod df_returns df_binary 1308 327) (\<lambda>(periods_returns, periods_binary).
      ebind (py_index periods_returns period) (\<lambda>T1_input.
      ebind (py_index periods_binary period) (\<lambda>T1_target.
      ebind (fit_transform sc scaler (df_slice None (Some len_train) T1_input)) (\<lambda>(scaler, a1).
      ebind (df_set_rows None (Some len_train) a1 T1_input) (\<lambda>T1_input.
      let X_input_train = df_slice None (Some len_train) T1_input;
          y_input_train = df_slice None (Some len_train) T1_target in
      ebind (fit_transform sc scaler (df_slice (Some len_train) None T1_input)) (\<lambda>(scaler, a2).
      ebind (df_set_rows (Some len_train) None a2 T1_input) (\<lambda>T1_input.
      let X_test = df_slice (Some len_train) None T1_input;
          y_test = df_slice (Some len_train) None T1_target in
      ebind (get_train_set X_input_train y_input_train) (\<lambda>(X_train, y_train).
      ebind (get_train_set X_test y_test) (\<lambda>(X_test, y_test).
        Inr (map (map (\<lambda>x. [x])) X_train, y_train,
             map (map (\<lambda>x. [x])) X_test, y_test)))))))))))"

text \<open>
  \<open>X[:, m, :]\<close> followed by the reshape to \<open>(X.shape[0], 31)\<close>: an index of \<open>m\<close> out of
  range raises IndexError, a size other than \<open>X.shape[0] * 31\<close> raises ValueError.
\<close>

definition take_features :: "int list \<Rightarrow> 'a list list list \<Rightarrow> error + 'a list list" where
  "take_features m X =
     ebind (mapM (\<lambda>s. mapM (\<lambda>j. py_index s j) m) X) (\<lambda>sel.
       if length (concat (concat sel)) = length X * 31 then Inr (map concat sel)
       else Inl ValueError)"

text \<open>
  \<open>all_data_DNN\<close> calls \<open>all_data_LSTM(df_returns, df_binary, period)\<close>: its own
  \<open>len_train\<close> is not passed on, so the default 981 is used.
  \<^verbatim>\<open>m = list(range(0, X_train.shape[1], 20)) + list(range(221, X_train.shape[1]))\<close>
  \<open>X_train.shape[1]\<close> is read off the first sequence; \<open>all_data_LSTM\<close> returns no empty
  batch (lemma \<open>all_data_LSTM_nonempty\<close>), so the first branch of the case is never taken.
\<close>

text \<open>
  The feature subset as the spec gives it: every 20th time index from the start, then
  the indices 221 to 239.
\<close>

definition dnn_features :: "nat list" where
  "dnn_features = [0, 20, 40, 60, 80, 100, 120, 140, 160, 180, 200, 220] @ [221..<240]"

definition all_data_DNN ::
  "('a, 's) standard_scaler \<Rightarrow> 'a dataframe \<Rightarrow> 'b dataframe \<Rightarrow> int \<Rightarrow> int
     \<Rightarrow> error + ('a list list \<times> 'b list \<times> 'a list list \<times> 'b list)" where
  "all_data_DNN sc df_returns df_binary period len_train =
     ebind (all_data_LSTM sc df_returns df_binary period 981) (\<lambda>(X_train, y_train, X_test, y_test).
       case X_train of
         [] \<Rightarrow> Inl IndexError
       | s # _ \<Rightarrow>
           ebind (py_range 0 (int (length s)) 20) (\<lambda>m1.
           ebind (py_range 221 (int (length s)) 1) (\<lambda>m2.
           let m = m1 @ m2 in
           ebind (take_features m X_train) (\<lambda>X_train.
           ebind (take_features m X_test) (\<lambda>X_test.
             Inr (X_train, y_train, X_test, y_test))))))"

section \<open>A concrete study period\<close>

text \<open>
  An input on which \<open>all_data_LSTM\<close> succeeds needs 1308 rows. The example has one
  company with the constant return 1 and the constant label 0, and a scaler that centres
  a column on its sum, so that the statistic tells how many rows it was fit on.
\<close>

definition example_scaler :: "(int, int) standard_scaler" where
  "example_scaler = \<lparr>fit_column = (\<lambda>xs. Some (sum_list xs)), transform_cell = (\<lambda>s x. x - s)\<rparr>"

definition example_returns :: "int dataframe" where
  "example_returns = \<lparr>nrows = 1308, columns = [(''A'', replicate 1308 1)]\<rparr>"

definition example_binary :: "int dataframe" where
  "example_binary = \<lparr>nrows = 1308, columns = [(''A'', replicate 1308 0)]\<rparr>"

section \<open>Properties of the primitives\<close>

lemma mapM_total:
  assumes "\<And>x. x \<in> set xs \<Longrightarrow> f x = Inr (g x)"
  shows "mapM f xs = Inr (map g xs)"
  using assms by (induction xs) auto

lemma py_slice_window:
  assumes "0 \<le> n" "i + nat n \<le> length xs"
  shows "py_slice (Some (int i)) (Some (int i + n)) xs = take (nat n) (drop i xs)"
proof -
  have a: "py_bound (length xs) (int i) = i"
    using assms by (simp add: py_bound_def)
  have b: "py_bound (length xs) (int i + n) = i + nat n"
    using assms by (simp add: py_bound_def nat_add_distrib)
  show ?thesis
    by (simp add: py_slice_def a b)
qed

lemma take_drop_window:
  assumes "i + n \<le> length xs"
  shows "take n (drop i xs) = map (\<lambda>k. xs ! (i + k)) [0..<n]"
  using assms by (intro nth_equalityI) auto

section \<open>Sliding windows\<close>

text \<open>
  C1. For two series of equal length and a positive \<open>n_steps\<close>, \<open>get_sequences\<close> does
  not raise and returns \<open>X\<close> and \<open>y\<close> of the same length \<open>len(returns) - n_steps\<close>
  (zero when the series has at most \<open>n_steps\<close> elements: the subtraction on naturals
  truncates). Window \<open>i\<close> is the \<open>n_steps\<close> consecutive returns from position \<open>i\<close>, that
  is \<open>returns[i : i + n_steps]\<close>, and its target is \<open>targets[i + n_steps]\<close>; the windows
  come in increasing order of their start.
\<close>

theorem get_sequences_windows:
  assumes "length returns = length targets" and "0 < n_steps"
  shows "\<exists>X y. get_sequences returns targets n_steps = Inr (X, y)
           \<and> length X = length returns - nat n_steps
           \<and> length y = length X
           \<and> (\<forall>i < length X.
                 X ! i = py_slice (Some (int i)) (Some (int i + n_steps)) returns
               \<and> X ! i = map (\<lambda>k. returns ! (i + k)) [0..<nat n_steps]
               \<and> y ! i = targets ! (i + nat n_steps))"
proof -
  let ?m = "length returns - nat n_steps"
  have rng: "nat (int (length targets) - n_steps) = ?m"
    using assms by simp
  have idx: "py_index targets (i + n_steps) = Inr (targets ! nat (i + n_steps))"
    if "i \<in> set (py_range1 (int (length targets) - n_steps))" for i
    using that assms by (auto simp: py_range1_def py_index_def Let_def)
  have y: "mapM (\<lambda>i. py_index targets (i + n_steps))
             (py_range1 (int (length targets) - n_steps))
           = Inr (map (\<lambda>i. targets ! nat (i + n_steps))
                   (py_range1 (int (length targets) - n_steps)))"
    by (rule mapM_total) (rule idx)
  let ?X = "map (\<lambda>i. py_slice (Some i) (Some (i + n_steps)) returns)
              (py_range1 (int (length returns) - n_steps))"
  let ?y = "map (\<lambda>i. targets ! nat (i + n_steps))
              (py_range1 (int (length targets) - n_steps))"
  have res: "get_sequences returns targets n_steps = Inr (?X, ?y)"
    by (simp add: get_sequences_def y ebind_def)
  have lenX: "length ?X = ?m"
    using assms by (simp add: py_range1_def)
  have leny: "length ?y = ?m"
    using rng by (simp add: py_range1_def)
  have elems: "?X ! i = py_slice (Some (int i)) (Some (int i + n_steps)) returns
             \<and> ?X ! i = map (\<lambda>k. returns ! (i + k)) [0..<nat n_steps]
             \<and> ?y ! i = targets ! (i + nat n_steps)" if "i < ?m" for i
  proof -
    have fits: "i + nat n_steps \<le> length returns"
      using that by simp
    have xi: "?X ! i = py_slice (Some (int i)) (Some (int i + n_steps)) returns"
      using that assms by (simp add: py_range1_def)
    have win: "py_slice (Some (int i)) (Some (int i + n_steps)) returns
               = map (\<lambda>k. returns ! (i + k)) [0..<nat n_steps]"
      using assms fits by (simp add: py_slice_window take_drop_window)
    have yi: "?y ! i = targets ! (i + nat n_steps)"
      using that assms rng by (simp add: py_range1_def nat_add_distrib)
    show ?thesis
      using xi win yi by simp
  qed
  have all: "\<forall>i < length ?X.
               ?X ! i = py_slice (Some (int i)) (Some (int i + n_steps)) returns
             \<and> ?X ! i = map (\<lambda>k. returns ! (i + k)) [0..<nat n_steps]
             \<and> ?y ! i = targets ! (i + nat n_steps)"
    unfolding lenX using elems by blast
  have "length ?y = length ?X"
    using lenX leny by simp
  with res lenX all show ?thesis
    by blast
qed

theorem get_sequences_windows_witness:
  "\<exists>X y. get_sequences [1, 2, 3, 4, 5 :: int] [10, 20, 30, 40, 50 :: int] 2 = Inr (X, y)
     \<and> length X = 3 \<and> length y = 3
     \<and> X ! 0 = [1, 2] \<and> X ! 2 = [3, 4] \<and> y ! 0 = 30 \<and> y ! 2 = 50"
proof -
  have h1: "length [1, 2, 3, 4, 5 :: int] = length [10, 20, 30, 40, 50 :: int]"
    by simp
  have h2: "(0::int) < 2"
    by simp
  obtain X y where r: "get_sequences [1, 2, 3, 4, 5 :: int] [10, 20, 30, 40, 50 :: int] 2 = Inr (X, y)"
    and lx: "length X = length [1, 2, 3, 4, 5 :: int] - nat 2"
    and ly: "length y = length X"
    and el: "\<forall>i < length X.
                 X ! i = py_slice (Some (int i)) (Some (int i + 2)) [1, 2, 3, 4, 5 :: int]
               \<and> X ! i = map (\<lambda>k. [1, 2, 3, 4, 5 :: int] ! (i + k)) [0..<nat 2]
               \<and> y ! i = [10, 20, 30, 40, 50 :: int] ! (i + nat 2)"
    using get_sequences_windows [OF h1 h2] by blast
  have l3: "length X = 3"
    using lx by simp
  have e0: "X ! 0 = [1, 2] \<and> y ! 0 = 30"
    using el [rule_format, of 0] l3 by (simp add: upt_rec py_slice_def py_bound_def)
  have e2: "X ! 2 = [3, 4] \<and> y ! 2 = 50"
    using el [rule_format, of 2] l3 by (simp add: upt_rec py_slice_def py_bound_def)
  show ?thesis
    using r l3 ly e0 e2 by simp
qed

lemma py_slice_from:
  assumes "0 \<le> s" "0 \<le> n"
  shows "py_slice (Some s) (Some (s + n)) xs = take (nat n) (drop (nat s) xs)"
proof (cases "nat s \<le> length xs")
  case True
  have a: "py_bound (length xs) s = nat s"
    using assms True by (simp add: py_bound_def)
  have b: "py_bound (length xs) (s + n) = min (nat s + nat n) (length xs)"
    using assms by (simp add: py_bound_def nat_add_distrib)
  have "take (min (nat s + nat n) (length xs) - nat s) (drop (nat s) xs)
        = take (nat n) (drop (nat s) xs)"
    by (cases "nat s + nat n \<le> length xs") (simp_all add: min_def)
  then show ?thesis
    by (simp add: py_slice_def a b)
next
  case False
  then show ?thesis
    using assms by (simp add: py_slice_def py_bound_def)
qed

lemma int_le_div_iff:
  assumes "0 < (c::int)"
  shows "a \<le> b div c \<longleftrightarrow> a * c \<le> b"
proof
  assume "a \<le> b div c"
  then have "a * c \<le> (b div c) * c"
    using assms by (simp add: mult_right_mono)
  also have "(b div c) * c = b - b mod c"
    by (simp add: minus_mod_eq_div_mult)
  also have "\<dots> \<le> b"
    using assms by simp
  finally show "a * c \<le> b" .
next
  assume "a * c \<le> b"
  then have "(a * c) div c \<le> b div c"
    using assms by (rule zdiv_mono1)
  then show "a \<le> b div c"
    using assms by simp
qed

lemma count_starts:
  assumes "0 < (step::int)"
  shows "k < nat (L div step + 1) \<longleftrightarrow> int k * step \<le> L"
proof -
  have "k < nat (L div step + 1) \<longleftrightarrow> int k \<le> L div step"
    by (simp add: zless_nat_eq_int_zless)
  then show ?thesis
    using assms by (simp add: int_le_div_iff)
qed

lemma py_range_from_zero:
  assumes "0 < step"
  shows "py_range 0 (L + 1) step = Inr (map (\<lambda>k. int k * step) [0..<nat (L div step + 1)])"
proof -
  have "(L + 1 - 0 + step - 1) div step = L div step + 1"
    using assms by simp
  then show ?thesis
    using assms unfolding py_range_def by simp
qed

lemma split_Tperiod_starts:
  assumes "0 < len_test"
  shows "split_Tperiod df_returns df_binary len_period len_test
         = Inr (map (\<lambda>i. df_slice (Some i) (Some (len_period + i)) df_returns)
                  (map (\<lambda>k. int k * len_test)
                     [0..<nat ((int (nrows df_returns) - len_period) div len_test + 1)]),
                map (\<lambda>i. df_slice (Some i) (Some (len_period + i)) df_binary)
                  (map (\<lambda>k. int k * len_test)
                     [0..<nat ((int (nrows df_returns) - len_period) div len_test + 1)]))"
  unfolding split_Tperiod_def Let_def py_range_from_zero [OF assms] ebind_def by simp

lemma df_slice_rows:
  assumes "0 \<le> s" "0 \<le> n" "nat s + nat n \<le> nrows d"
  shows "df_slice (Some s) (Some (s + n)) d
         = \<lparr>nrows = nat n, columns = map (\<lambda>p. (fst p, take (nat n) (drop (nat s) (snd p)))) (columns d)\<rparr>"
  using assms by (simp add: df_slice_def py_slice_from)

section \<open>Study periods\<close>

text \<open>
  C4. For two tables of the same length and positive \<open>len_period\<close> and \<open>len_test\<close>,
  \<open>split_Tperiod\<close> does not raise and returns two lists of the same length. There is
  an \<open>i\<close>-th period exactly when the start \<open>i * len_test\<close> is at most
  \<open>len(table) - len_period\<close>, and the \<open>i\<close>-th elements are the row slices
  \<open>[i * len_test, i * len_test + len_period)\<close> of the two tables: \<open>len_period\<close> rows
  each, every column cut at the same rows. When the table is shorter than
  \<open>len_period\<close> both lists are empty.
\<close>

theorem split_Tperiod_windows:
  assumes "nrows df_returns = nrows df_binary" and "0 < len_period" and "0 < len_test"
  shows "\<exists>periods_ret periods_bin.
           split_Tperiod df_returns df_binary len_period len_test = Inr (periods_ret, periods_bin)
         \<and> length periods_ret = length periods_bin
         \<and> (\<forall>i. i < length periods_ret \<longleftrightarrow> int i * len_test \<le> int (nrows df_returns) - len_period)
         \<and> (\<forall>i < length periods_ret.
               periods_ret ! i
                 = df_slice (Some (int i * len_test)) (Some (len_period + int i * len_test)) df_returns
             \<and> periods_bin ! i
                 = df_slice (Some (int i * len_test)) (Some (len_period + int i * len_test)) df_binary
             \<and> nrows (periods_ret ! i) = nat len_period
             \<and> nrows (periods_bin ! i) = nat len_period
             \<and> columns (periods_ret ! i)
                 = map (\<lambda>p. (fst p, take (nat len_period) (drop (i * nat len_test) (snd p))))
                     (columns df_returns)
             \<and> columns (periods_bin ! i)
                 = map (\<lambda>p. (fst p, take (nat len_period) (drop (i * nat len_test) (snd p))))
                     (columns df_binary))
         \<and> (int (nrows df_returns) < len_period \<longrightarrow> periods_ret = [] \<and> periods_bin = [])"
proof -
  let ?L = "int (nrows df_returns) - len_period"
  let ?k = "nat (?L div len_test + 1)"
  let ?starts = "map (\<lambda>k. int k * len_test) [0..<?k]"
  let ?pr = "map (\<lambda>i. df_slice (Some i) (Some (len_period + i)) df_returns) ?starts"
  let ?pb = "map (\<lambda>i. df_slice (Some i) (Some (len_period + i)) df_binary) ?starts"
  have res: "split_Tperiod df_returns df_binary len_period len_test = Inr (?pr, ?pb)"
    using assms(3) by (rule split_Tperiod_starts)
  have len: "length ?pr = ?k" "length ?pb = ?k"
    by simp_all
  have cnt: "i < ?k \<longleftrightarrow> int i * len_test \<le> ?L" for i
    using assms(3) by (rule count_starts)
  have elems: "?pr ! i = df_slice (Some (int i * len_test)) (Some (len_period + int i * len_test)) df_returns
             \<and> ?pb ! i = df_slice (Some (int i * len_test)) (Some (len_period + int i * len_test)) df_binary
             \<and> nrows (?pr ! i) = nat len_period
             \<and> nrows (?pb ! i) = nat len_period
             \<and> columns (?pr ! i)
                 = map (\<lambda>p. (fst p, take (nat len_period) (drop (i * nat len_test) (snd p))))
                     (columns df_returns)
             \<and> columns (?pb ! i)
                 = map (\<lambda>p. (fst p, take (nat len_period) (drop (i * nat len_test) (snd p))))
                     (columns df_binary)" if "i < ?k" for i
  proof -
    have le: "int i * len_test \<le> ?L"
      using that cnt by simp
    have s0: "0 \<le> int i * len_test"
      using assms(3) by simp
    have ns: "nat (int i * len_test) = i * nat len_test"
      using assms(3) by (simp add: nat_mult_distrib)
    have fit: "nat (int i * len_test) + nat len_period \<le> nrows df_returns"
      using le s0 assms(2) by linarith
    have fit': "nat (int i * len_test) + nat len_period \<le> nrows df_binary"
      using fit assms(1) by simp
    have r: "df_slice (Some (int i * len_test)) (Some (int i * len_test + len_period)) df_returns
         = \<lparr>nrows = nat len_period, columns = map (\<lambda>p. (fst p, take (nat len_period) (drop (nat (int i * len_test)) (snd p)))) (columns df_returns)\<rparr>"
      using s0 assms(2) fit by (intro df_slice_rows) simp_all
    have b: "df_slice (Some (int i * len_test)) (Some (int i * len_test + len_period)) df_binary
         = \<lparr>nrows = nat len_period, columns = map (\<lambda>p. (fst p, take (nat len_period) (drop (nat (int i * len_test)) (snd p)))) (columns df_binary)\<rparr>"
      using s0 assms(2) fit' by (intro df_slice_rows) simp_all
    show ?thesis
      using that r b by (simp add: ns add.commute)
  qed
  have all: "\<forall>i < length ?pr.
               ?pr ! i = df_slice (Some (int i * len_test)) (Some (len_period + int i * len_test)) df_returns
             \<and> ?pb ! i = df_slice (Some (int i * len_test)) (Some (len_period + int i * len_test)) df_binary
             \<and> nrows (?pr ! i) = nat len_period
             \<and> nrows (?pb ! i) = nat len_period
             \<and> columns (?pr ! i)
                 = map (\<lambda>p. (fst p, take (nat len_period) (drop (i * nat len_test) (snd p))))
                     (columns df_returns)
             \<and> columns (?pb ! i)
                 = map (\<lambda>p. (fst p, take (nat len_period) (drop (i * nat len_test) (snd p))))
                     (columns df_binary)"
    unfolding len using elems by blast
  have cnt': "\<forall>i. i < length ?pr \<longleftrightarrow> int i * len_test \<le> ?L"
    unfolding len using cnt by blast
  have empty: "int (nrows df_returns) < len_period \<longrightarrow> ?pr = [] \<and> ?pb = []"
  proof
    assume "int (nrows df_returns) < len_period"
    then have "\<not> (int 0 * len_test \<le> ?L)"
      by simp
    then have "\<not> 0 < ?k"
      using cnt [of 0] by simp
    then show "?pr = [] \<and> ?pb = []"
      by simp
  qed
  have same: "length ?pr = length ?pb"
    by simp
  from res same cnt' all empty show ?thesis
    by blast
qed

theorem split_Tperiod_windows_witness:
  "\<exists>periods_ret periods_bin.
     split_Tperiod \<lparr>nrows = 10, columns = [(''A'', [10, 11, 12, 13, 14, 15, 16, 17, 18, 19 :: int])]\<rparr>
       \<lparr>nrows = 10, columns = [(''A'', [0, 1, 0, 1, 0, 1, 0, 1, 0, 1 :: int])]\<rparr> 4 3
       = Inr (periods_ret, periods_bin)
   \<and> length periods_ret = 3 \<and> length periods_bin = 3
   \<and> columns (periods_ret ! 2) = [(''A'', [16, 17, 18, 19])]
   \<and> columns (periods_bin ! 2) = [(''A'', [0, 1, 0, 1])]"
proof -
  let ?R = "\<lparr>nrows = 10, columns = [(''A'', [10, 11, 12, 13, 14, 15, 16, 17, 18, 19 :: int])]\<rparr>"
  let ?B = "\<lparr>nrows = 10, columns = [(''A'', [0, 1, 0, 1, 0, 1, 0, 1, 0, 1 :: int])]\<rparr>"
  have h1: "nrows ?R = nrows ?B"
    by simp
  have h2: "(0::int) < 4" and h3: "(0::int) < 3"
    by simp_all
  obtain pr pb where r: "split_Tperiod ?R ?B 4 3 = Inr (pr, pb)"
    and l: "length pr = length pb"
    and c: "\<forall>i. i < length pr \<longleftrightarrow> int i * 3 \<le> int (nrows ?R) - 4"
    and e: "\<forall>i < length pr.
               pr ! i = df_slice (Some (int i * 3)) (Some (4 + int i * 3)) ?R
             \<and> pb ! i = df_slice (Some (int i * 3)) (Some (4 + int i * 3)) ?B
             \<and> nrows (pr ! i) = nat 4
             \<and> nrows (pb ! i) = nat 4
             \<and> columns (pr ! i)
                 = map (\<lambda>p. (fst p, take (nat 4) (drop (i * nat 3) (snd p)))) (columns ?R)
             \<and> columns (pb ! i)
                 = map (\<lambda>p. (fst p, take (nat 4) (drop (i * nat 3) (snd p)))) (columns ?B)"
    using split_Tperiod_windows [OF h1 h2 h3] by blast
  have "2 < length pr" and "\<not> 3 < length pr"
    using c [rule_format, of 2] c [rule_format, of 3] by simp_all
  then have l3: "length pr = 3"
    by simp
  have "columns (pr ! 2) = [(''A'', [16, 17, 18, 19])] \<and> columns (pb ! 2) = [(''A'', [0, 1, 0, 1])]"
    using e [rule_format, of 2] l3 by (simp add: df_slice_def py_slice_def py_bound_def)
  then show ?thesis
    using r l l3 by simp
qed

lemma split_Tperiod_trailing_start:
  assumes "0 < len_test" and "0 \<le> L"
  shows "(\<exists>i < nat (L div len_test + 1). int i * len_test = L) \<longleftrightarrow> len_test dvd L"
proof
  assume "\<exists>i < nat (L div len_test + 1). int i * len_test = L"
  then show "len_test dvd L"
    by (metis dvd_triv_right)
next
  assume "len_test dvd L"
  then obtain q where q: "L = len_test * q"
    by (auto simp: dvd_def)
  have "0 \<le> q"
    using assms q by (simp add: zero_le_mult_iff)
  then have eq: "int (nat q) * len_test = L"
    using q by simp
  then have "nat q < nat (L div len_test + 1)"
    using count_starts [OF assms(1), of "nat q" L] by simp
  with eq show "\<exists>i < nat (L div len_test + 1). int i * len_test = L"
    by blast
qed

text \<open>
  C5, as the code has it. For a table of at least \<open>len_period\<close> rows, the periods start
  at the multiples of \<open>len_test\<close> only: a period that starts at row
  \<open>len(table) - len_period\<close> is among them exactly when \<open>len_test\<close> divides
  \<open>len(table) - len_period\<close>. When it does not, no trailing period is added.
\<close>

theorem split_Tperiod_trailing_period:
  assumes "0 < len_period" and "0 < len_test" and "len_period \<le> int (nrows df_returns)"
  shows "\<exists>periods_ret periods_bin.
           split_Tperiod df_returns df_binary len_period len_test = Inr (periods_ret, periods_bin)
         \<and> length periods_bin = length periods_ret
         \<and> (\<forall>i < length periods_ret.
               periods_ret ! i
                 = df_slice (Some (int i * len_test)) (Some (len_period + int i * len_test)) df_returns
             \<and> periods_bin ! i
                 = df_slice (Some (int i * len_test)) (Some (len_period + int i * len_test)) df_binary)
         \<and> ((\<exists>i < length periods_ret. int i * len_test = int (nrows df_returns) - len_period)
              \<longleftrightarrow> len_test dvd (int (nrows df_returns) - len_period))"
proof -
  let ?L = "int (nrows df_returns) - len_period"
  let ?k = "nat (?L div len_test + 1)"
  let ?starts = "map (\<lambda>k. int k * len_test) [0..<?k]"
  let ?pr = "map (\<lambda>i. df_slice (Some i) (Some (len_period + i)) df_returns) ?starts"
  let ?pb = "map (\<lambda>i. df_slice (Some i) (Some (len_period + i)) df_binary) ?starts"
  have res: "split_Tperiod df_returns df_binary len_period len_test = Inr (?pr, ?pb)"
    using assms(2) by (rule split_Tperiod_starts)
  have len: "length ?pb = length ?pr"
    by simp
  have elems: "\<forall>i < length ?pr.
                 ?pr ! i = df_slice (Some (int i * len_test)) (Some (len_period + int i * len_test)) df_returns
               \<and> ?pb ! i = df_slice (Some (int i * len_test)) (Some (len_period + int i * len_test)) df_binary"
    by simp
  have "0 \<le> ?L"
    using assms(3) by simp
  then have "(\<exists>i < ?k. int i * len_test = ?L) \<longleftrightarrow> len_test dvd ?L"
    using assms(2) by (intro split_Tperiod_trailing_start)
  then have trail: "(\<exists>i < length ?pr. int i * len_test = ?L) \<longleftrightarrow> len_test dvd ?L"
    by simp
  from res len elems trail show ?thesis
    by blast
qed

theorem split_Tperiod_trailing_period_witness:
  "\<not> (4::int) dvd (10 - 4) \<and>
   (\<exists>periods_ret periods_bin.
      split_Tperiod \<lparr>nrows = 10, columns = [(''A'', [10, 11, 12, 13, 14, 15, 16, 17, 18, 19 :: int])]\<rparr>
        \<lparr>nrows = 10, columns = [(''A'', [0, 1, 0, 1, 0, 1, 0, 1, 0, 1 :: int])]\<rparr> 4 4
        = Inr (periods_ret, periods_bin)
    \<and> \<not> (\<exists>i < length periods_ret. int i * 4 = 6))"
proof -
  let ?R = "\<lparr>nrows = 10, columns = [(''A'', [10, 11, 12, 13, 14, 15, 16, 17, 18, 19 :: int])]\<rparr>"
  let ?B = "\<lparr>nrows = 10, columns = [(''A'', [0, 1, 0, 1, 0, 1, 0, 1, 0, 1 :: int])]\<rparr>"
  have h1: "(0::int) < 4"
    by simp
  have h3: "(4::int) \<le> int (nrows ?R)"
    by simp
  have nd: "\<not> (4::int) dvd (10 - 4)"
    by simp
  obtain pr pb where r: "split_Tperiod ?R ?B 4 4 = Inr (pr, pb)"
    and t: "(\<exists>i < length pr. int i * 4 = int (nrows ?R) - 4) \<longleftrightarrow> (4::int) dvd (int (nrows ?R) - 4)"
    using split_Tperiod_trailing_period [OF h1 h1 h3, of ?B] by blast
  have "\<not> (\<exists>i < length pr. int i * 4 = 6)"
    using t nd by simp
  with r nd show ?thesis
    by blast
qed

text \<open>
  C5 as stated fails: 10 rows, \<open>len_period = 4\<close>, \<open>len_test = 4\<close>. The rolling window
  would overshoot after the start 4, and \<open>10 - 4 = 6\<close> is not a multiple of 4; the
  result has the periods of rows 0..3 and 4..7 and no period of rows 6..9.
\<close>

theorem split_Tperiod_no_trailing_period:
  "split_Tperiod \<lparr>nrows = 10, columns = [(''A'', [10, 11, 12, 13, 14, 15, 16, 17, 18, 19 :: int])]\<rparr>
     \<lparr>nrows = 10, columns = [(''A'', [0, 1, 0, 1, 0, 1, 0, 1, 0, 1 :: int])]\<rparr> 4 4
   = Inr ([\<lparr>nrows = 4, columns = [(''A'', [10, 11, 12, 13])]\<rparr>,
           \<lparr>nrows = 4, columns = [(''A'', [14, 15, 16, 17])]\<rparr>],
          [\<lparr>nrows = 4, columns = [(''A'', [0, 1, 0, 1])]\<rparr>,
           \<lparr>nrows = 4, columns = [(''A'', [0, 1, 0, 1])]\<rparr>])
   \<and> df_slice (Some (10 - 4)) (Some 10)
        \<lparr>nrows = 10, columns = [(''A'', [10, 11, 12, 13, 14, 15, 16, 17, 18, 19 :: int])]\<rparr>
      = \<lparr>nrows = 4, columns = [(''A'', [16, 17, 18, 19])]\<rparr>
   \<and> \<lparr>nrows = 4, columns = [(''A'', [16, 17, 18, 19 :: int])]\<rparr>
        \<notin> set [\<lparr>nrows = 4, columns = [(''A'', [10, 11, 12, 13])]\<rparr>,
                \<lparr>nrows = 4, columns = [(''A'', [14, 15, 16, 17])]\<rparr>]"
  by (simp add: split_Tperiod_def py_range_def ebind_def df_slice_def py_slice_def py_bound_def
      upt_rec)

section \<open>Returns\<close>

lemma py_slice_tl: "py_slice (Some 1) None xs = tl xs"
  by (cases xs) (simp_all add: py_slice_def py_bound_def)

lemma py_slice_tomorrow:
  assumes "0 \<le> m"
  shows "py_slice (Some m) None xs = drop (nat m) xs"
  using assms by (simp add: py_slice_def py_bound_def min_def Let_def)

lemma py_slice_today:
  assumes "0 < m"
  shows "py_slice None (Some (- m)) xs = take (length xs - nat m) xs"
proof -
  have "nat (int (length xs) - m) = length xs - nat m"
    using assms by simp
  then show ?thesis
    using assms by (simp add: py_slice_def py_bound_def)
qed

lemma returns_column_cells:
  "map (\<lambda>x. x - 1) (map2 (\<lambda>x y. x / y) (drop k xs) (take (length xs - k) xs))
   = map (\<lambda>t. xs ! (t + k) / xs ! t - 1) [0..<length xs - k]"
  by (intro nth_equalityI) (simp_all add: add.commute)

lemma returns_step_column:
  assumes "0 < m" and "df_getitem dataframe col = Inr xs"
  shows "returns_step dataframe m col df
         = df_setitem df col (map (\<lambda>t. xs ! (t + nat m) / xs ! t - 1) [0..<length xs - nat m])"
proof -
  have "np_divide (drop (nat m) xs) (take (length xs - nat m) xs)
        = Inr (map2 (\<lambda>x y. x / y) (drop (nat m) xs) (take (length xs - nat m) xs))"
    by (simp add: np_divide_def)
  then show ?thesis
    using assms
    by (simp add: returns_step_def ebind_def py_slice_tomorrow py_slice_today
        returns_column_cells del: map_map)
qed

lemma set_column_fresh:
  assumes "c \<notin> fst ` set ps"
  shows "set_column c v ps = ps @ [(c, v)]"
  using assms by (induction ps) auto

lemma foldM_returns:
  assumes "0 < m"
    and "\<And>p. p \<in> set ps \<Longrightarrow> df_getitem dataframe (fst p) = Inr (snd p) \<and> length (snd p) = n"
    and "distinct (map fst ps)"
    and "fst ` set ps \<inter> fst ` set (columns acc) = {}"
    and "(columns acc = [] \<and> nrows acc = 0) \<or> nrows acc = n - nat m"
  shows "foldM (returns_step dataframe m) (map fst ps) acc
         = Inr \<lparr>nrows = (if ps = [] then nrows acc else n - nat m),
                columns = columns acc
                  @ map (\<lambda>p. (fst p, map (\<lambda>t. snd p ! (t + nat m) / snd p ! t - 1) [0..<n - nat m])) ps\<rparr>"
  using assms(2-)
proof (induction ps arbitrary: acc)
  case Nil
  then show ?case by simp
next
  case (Cons p ps)
  let ?v = "map (\<lambda>t. snd p ! (t + nat m) / snd p ! t - 1) [0..<n - nat m]"
  let ?acc = "\<lparr>nrows = n - nat m, columns = columns acc @ [(fst p, ?v)]\<rparr>"
  have p: "df_getitem dataframe (fst p) = Inr (snd p)" "length (snd p) = n"
    using Cons.prems(1) [of p] by simp_all
  have fresh: "fst p \<notin> fst ` set (columns acc)"
    using Cons.prems(3) by auto
  have step: "returns_step dataframe m (fst p) acc = Inr ?acc"
    using Cons.prems(4) fresh
    by (auto simp: returns_step_column [OF assms(1) p(1)] p(2) df_setitem_def set_column_fresh)
  have ih: "foldM (returns_step dataframe m) (map fst ps) ?acc
            = Inr \<lparr>nrows = (if ps = [] then nrows ?acc else n - nat m),
                columns = columns ?acc
                  @ map (\<lambda>p. (fst p, map (\<lambda>t. snd p ! (t + nat m) / snd p ! t - 1) [0..<n - nat m])) ps\<rparr>"
  proof (rule Cons.IH)
    show "df_getitem dataframe (fst q) = Inr (snd q) \<and> length (snd q) = n" if "q \<in> set ps" for q
      using that Cons.prems(1) by simp
    show "distinct (map fst ps)"
      using Cons.prems(2) by simp
    show "fst ` set ps \<inter> fst ` set (columns ?acc) = {}"
      using Cons.prems(2,3) by auto
    show "(columns ?acc = [] \<and> nrows ?acc = 0) \<or> nrows ?acc = n - nat m"
      by simp
  qed
  show ?case
    using step ih by simp
qed

lemma in_set_tl:
  assumes "p \<in> set (tl xs)"
  shows "p \<in> set xs"
  using assms by (cases xs) auto

lemma wf_df_getitem:
  assumes "wf_df d" and "p \<in> set (columns d)"
  shows "df_getitem d (fst p) = Inr (snd p) \<and> length (snd p) = nrows d"
proof -
  have "map_of (columns d) (fst p) = Some (snd p)"
    using assms by (simp add: wf_df_def)
  moreover have "length (snd p) = nrows d"
    using assms by (auto simp: wf_df_def list_all_iff)
  ultimately show ?thesis
    by (simp add: df_getitem_def)
qed

lemma get_returns_loop:
  assumes "wf_df dataframe" and "0 < m"
  shows "foldM (returns_step dataframe m) (py_slice (Some 1) None (map fst (columns dataframe))) df_empty
         = Inr \<lparr>nrows = (if tl (columns dataframe) = [] then 0 else nrows dataframe - nat m),
                columns = map (\<lambda>p. (fst p, map (\<lambda>t. snd p ! (t + nat m) / snd p ! t - 1)
                                          [0..<nrows dataframe - nat m]))
                            (tl (columns dataframe))\<rparr>"
proof -
  have names: "py_slice (Some 1) None (map fst (columns dataframe)) = map fst (tl (columns dataframe))"
    by (simp add: py_slice_tl map_tl)
  have "foldM (returns_step dataframe m) (map fst (tl (columns dataframe))) df_empty
         = Inr \<lparr>nrows = (if tl (columns dataframe) = [] then nrows (df_empty :: 'a dataframe) else nrows dataframe - nat m),
                columns = columns (df_empty :: 'a dataframe)
                  @ map (\<lambda>p. (fst p, map (\<lambda>t. snd p ! (t + nat m) / snd p ! t - 1)
                                          [0..<nrows dataframe - nat m]))
                            (tl (columns dataframe))\<rparr>"
  proof (rule foldM_returns [OF assms(2)])
    show "df_getitem dataframe (fst p) = Inr (snd p) \<and> length (snd p) = nrows dataframe"
      if "p \<in> set (tl (columns dataframe))" for p
      using assms(1) in_set_tl [OF that] by (rule wf_df_getitem)
    show "distinct (map fst (tl (columns dataframe)))"
      using assms(1) by (simp add: wf_df_def map_tl distinct_tl)
    show "fst ` set (tl (columns dataframe)) \<inter> fst ` set (columns (df_empty :: 'a dataframe)) = {}"
      by (simp add: df_empty_def)
    show "(columns (df_empty :: 'a dataframe) = [] \<and> nrows (df_empty :: 'a dataframe) = 0)
          \<or> nrows (df_empty :: 'a dataframe) = nrows dataframe - nat m"
      by (simp add: df_empty_def)
  qed
  then show ?thesis
    by (simp add: names df_empty_def)
qed

lemma get_returns_positive:
  assumes "wf_df dataframe" and "0 < m"
  shows "get_returns isna dataframe m no_missing
         = Inr ((if no_missing then dropna_columns isna else (\<lambda>d. d))
             \<lparr>nrows = (if tl (columns dataframe) = [] then 0 else nrows dataframe - nat m),
              columns = map (\<lambda>p. (fst p, map (\<lambda>t. snd p ! (t + nat m) / snd p ! t - 1)
                                          [0..<nrows dataframe - nat m]))
                          (tl (columns dataframe))\<rparr>)"
  using assms(2) by (simp add: get_returns_def get_returns_loop [OF assms] ebind_def)

text \<open>
  C2, as the code has it. For a price table \<open>P\<close> and \<open>0 < m < len(P)\<close>,
  \<open>get_returns\<close> does not raise. Its result has \<open>len(P) - m\<close> rows when \<open>P\<close> has a
  column after the first one, and no row when it has none (the result is then the frame
  \<open>pd.DataFrame()\<close> the loop started from). Every column \<open>c\<close> of the result is one of
  \<open>P.columns[1:]\<close>, has \<open>len(P) - m\<close> cells, and its cell \<open>t\<close> is
  \<open>P[c][t + m] / P[c][t] - 1\<close>.
\<close>

theorem get_returns_cells:
  assumes "wf_df P" and "0 < m" and "m < int (nrows P)"
  shows "\<exists>out. get_returns isna P m no_missing = Inr out
           \<and> nrows out = (if tl (columns P) = [] then 0 else nrows P - nat m)
           \<and> (\<forall>c ys. (c, ys) \<in> set (columns out) \<longrightarrow>
                 c \<in> set (map fst (tl (columns P)))
               \<and> length ys = nrows P - nat m
               \<and> (\<exists>xs. df_getitem P c = Inr xs
                     \<and> (\<forall>t < nrows P - nat m. ys ! t = xs ! (t + nat m) / xs ! t - 1)))"
proof -
  let ?all = "\<lparr>nrows = (if tl (columns P) = [] then 0 else nrows P - nat m),
               columns = map (\<lambda>p. (fst p, map (\<lambda>t. snd p ! (t + nat m) / snd p ! t - 1)
                                          [0..<nrows P - nat m]))
                          (tl (columns P))\<rparr>"
  let ?out = "(if no_missing then dropna_columns isna else (\<lambda>d. d)) ?all"
  have res: "get_returns isna P m no_missing = Inr ?out"
    using assms(1,2) by (rule get_returns_positive)
  have rows: "nrows ?out = (if tl (columns P) = [] then 0 else nrows P - nat m)"
    by (simp add: dropna_columns_def)
  have sub: "set (columns ?out) \<subseteq> set (columns ?all)"
    by (auto simp: dropna_columns_def)
  have cells: "c \<in> set (map fst (tl (columns P)))
               \<and> length ys = nrows P - nat m
               \<and> (\<exists>xs. df_getitem P c = Inr xs
                     \<and> (\<forall>t < nrows P - nat m. ys ! t = xs ! (t + nat m) / xs ! t - 1))"
    if "(c, ys) \<in> set (columns ?out)" for c ys
  proof -
    have "(c, ys) \<in> set (columns ?all)"
      using that sub by blast
    then obtain p where p: "p \<in> set (tl (columns P))" "c = fst p"
      and ys: "ys = map (\<lambda>t. snd p ! (t + nat m) / snd p ! t - 1) [0..<nrows P - nat m]"
      by auto
    have "df_getitem P c = Inr (snd p)"
      using wf_df_getitem [OF assms(1) in_set_tl [OF p(1)]] p(2) by simp
    moreover have "\<forall>t < nrows P - nat m. ys ! t = snd p ! (t + nat m) / snd p ! t - 1"
      using ys by simp
    moreover have "length ys = nrows P - nat m"
      using ys by simp
    moreover have "c \<in> set (map fst (tl (columns P)))"
      using p by simp
    ultimately show ?thesis
      by blast
  qed
  from res rows cells show ?thesis
    by blast
qed

theorem get_returns_cells_witness:
  "\<exists>out. get_returns (\<lambda>x. False)
       \<lparr>nrows = 5, columns = [(''Date'', [1, 2, 3, 4, 5]),
                               (''A'', [100, 101, 102, 99, 105 :: real])]\<rparr> 1 True = Inr out
     \<and> nrows out = 4
     \<and> columns out = [(''A'', [1 / 100, 1 / 101, - (1 / 34), 2 / 33])]"
proof -
  let ?P = "\<lparr>nrows = 5, columns = [(''Date'', [1, 2, 3, 4, 5]),
                                    (''A'', [100, 101, 102, 99, 105 :: real])]\<rparr>"
  have h1: "wf_df ?P"
    by (simp add: wf_df_def)
  have h2: "(0::int) < 1" and h3: "(1::int) < int (nrows ?P)"
    by simp_all
  obtain out where r: "get_returns (\<lambda>x. False) ?P 1 True = Inr out"
    and n: "nrows out = (if tl (columns ?P) = [] then 0 else nrows ?P - nat 1)"
    using get_returns_cells [OF h1 h2 h3, of "\<lambda>x. False" True] by blast
  have c: "get_returns (\<lambda>x. False) ?P 1 True
           = Inr \<lparr>nrows = 4, columns = [(''A'', [1 / 100, 1 / 101, - (1 / 34), 2 / 33])]\<rparr>"
    by (simp add: get_returns_def py_slice_def py_bound_def returns_step_def df_getitem_def
        np_divide_def df_setitem_def df_empty_def dropna_columns_def ebind_def)
  have "nrows out = 4"
    using n by simp
  moreover have "columns out = [(''A'', [1 / 100, 1 / 101, - (1 / 34), 2 / 33])]"
    using r c by auto
  ultimately show ?thesis
    using r by blast
qed

text \<open>
  C2 as stated fails on a table whose only column is the first one: three rows,
  \<open>m = 1\<close>, and the result has no row, not \<open>3 - 1\<close>.
\<close>

theorem get_returns_no_company_column:
  "get_returns (\<lambda>x. False) \<lparr>nrows = 3, columns = [(''Date'', [1, 2, 3 :: real])]\<rparr> 1 True
     = Inr \<lparr>nrows = 0, columns = []\<rparr>
   \<and> nrows \<lparr>nrows = 0, columns = ([] :: (string \<times> real list) list)\<rparr>
       \<noteq> nrows \<lparr>nrows = 3, columns = [(''Date'', [1, 2, 3 :: real])]\<rparr> - 1"
  by (simp add: get_returns_def py_slice_def py_bound_def df_empty_def dropna_columns_def
      ebind_def)

text \<open>A negative period takes the guard: the message is printed and the process exits.\<close>

lemma get_returns_negative:
  assumes "m < 0"
  shows "get_returns isna dataframe m no_missing = Inl SystemExit"
  using assms by (simp add: get_returns_def)

text \<open>
  C6. The guard is \<open>m < 0\<close>, so \<open>m = 0\<close> passes it. With one row of prices the call
  returns a table (one company column, no rows); with two rows numpy cannot broadcast
  the two-element \<open>tomorrow\<close> against the empty \<open>today[:-0]\<close> and raises its own
  ValueError, which is not the guard's exit. Only \<open>m = -1\<close> exits.
\<close>

theorem get_returns_zero_period:
  "get_returns (\<lambda>x. False)
     \<lparr>nrows = 1, columns = [(''Date'', [1]), (''A'', [5 :: real])]\<rparr> 0 True
     = Inr \<lparr>nrows = 0, columns = [(''A'', [])]\<rparr>
   \<and> get_returns (\<lambda>x. False)
     \<lparr>nrows = 2, columns = [(''Date'', [1, 2]), (''A'', [5, 6 :: real])]\<rparr> 0 True
     = Inl ValueError
   \<and> get_returns (\<lambda>x. False)
     \<lparr>nrows = 2, columns = [(''Date'', [1, 2]), (''A'', [5, 6 :: real])]\<rparr> (- 1) True
     = Inl SystemExit"
  by (simp add: get_returns_def py_slice_def py_bound_def returns_step_def df_getitem_def
      np_divide_def df_setitem_def df_empty_def dropna_columns_def ebind_def)

lemma foldM_cong:
  assumes "\<And>x. x \<in> set xs \<Longrightarrow> f x = g x"
  shows "foldM f xs s = foldM g xs s"
  using assms by (induction xs arbitrary: s) (auto split: sum.splits)

lemma set_column_labels: "fst ` set (set_column c v ps) = insert c (fst ` set ps)"
  by (induction ps) auto

lemma df_setitem_labels:
  assumes "df_setitem d c v = Inr d'"
  shows "fst ` set (columns d') = insert c (fst ` set (columns d))"
proof (cases "columns d = [] \<and> nrows d = 0")
  case True
  then have "d' = \<lparr>nrows = length v, columns = [(c, v)]\<rparr>"
    using assms by (simp add: df_setitem_def)
  then show ?thesis
    using True by simp
next
  case False
  then have "d' = d\<lparr>columns := set_column c v (columns d)\<rparr>"
    using assms by (simp add: df_setitem_def split: if_splits)
  then show ?thesis
    by (simp add: set_column_labels)
qed

lemma returns_step_labels:
  assumes "returns_step dataframe m c acc = Inr acc'"
  shows "fst ` set (columns acc') \<subseteq> insert c (fst ` set (columns acc))"
proof -
  obtain v where "df_setitem acc c v = Inr acc'"
    using assms by (auto simp: returns_step_def ebind_def Let_def split: sum.splits)
  then show ?thesis
    using df_setitem_labels by blast
qed

lemma foldM_returns_labels:
  assumes "foldM (returns_step dataframe m) cs acc = Inr out"
  shows "fst ` set (columns out) \<subseteq> fst ` set (columns acc) \<union> set cs"
  using assms
proof (induction cs arbitrary: acc)
  case Nil
  then show ?case by simp
next
  case (Cons c cs)
  then obtain acc' where s: "returns_step dataframe m c acc = Inr acc'"
    and r: "foldM (returns_step dataframe m) cs acc' = Inr out"
    by (auto split: sum.splits)
  have "fst ` set (columns out) \<subseteq> fst ` set (columns acc') \<union> set cs"
    using r by (rule Cons.IH)
  then show ?case
    using returns_step_labels [OF s] by auto
qed

text \<open>
  C10. Let two tables differ in their first column only (its label, its cells or both).
  Then \<open>get_returns\<close> gives the same outcome on both, for every \<open>m\<close> and either
  \<open>no_missing\<close>; and the labels of a result are among those of the columns after the
  first.
\<close>

theorem get_returns_first_column:
  assumes "wf_df D" and "wf_df D'"
    and "columns D = first # rest" and "columns D' = first' # rest"
  shows "get_returns isna D' m no_missing = get_returns isna D m no_missing
       \<and> (\<forall>out. get_returns isna D m no_missing = Inr out
             \<longrightarrow> set (map fst (columns out)) \<subseteq> set (map fst rest))"
proof -
  have names: "py_slice (Some 1) None (map fst (columns D)) = map fst rest"
    "py_slice (Some 1) None (map fst (columns D')) = map fst rest"
    using assms(3,4) by (simp_all add: py_slice_tl)
  have step: "returns_step D' m c = returns_step D m c" if "c \<in> set (map fst rest)" for c
  proof -
    have "fst first \<noteq> c" "fst first' \<noteq> c"
      using that assms by (auto simp: wf_df_def)
    then have "df_getitem D' c = df_getitem D c"
      using assms(3,4) by (cases first, cases first') (simp add: df_getitem_def)
    then show ?thesis
      by (simp add: returns_step_def fun_eq_iff)
  qed
  have loop: "foldM (returns_step D' m) (map fst rest) df_empty
              = foldM (returns_step D m) (map fst rest) df_empty"
    using step by (rule foldM_cong)
  have same: "get_returns isna D' m no_missing = get_returns isna D m no_missing"
    by (simp add: get_returns_def names loop)
  have labels: "set (map fst (columns out)) \<subseteq> set (map fst rest)"
    if "get_returns isna D m no_missing = Inr out" for out
  proof -
    have "\<not> m < 0"
      using that by (auto simp: get_returns_def)
    then have "ebind (foldM (returns_step D m) (map fst rest) df_empty)
                 (\<lambda>df. Inr (if no_missing then dropna_columns isna df else df)) = Inr out"
      using that by (simp add: get_returns_def names)
    then obtain df where df: "foldM (returns_step D m) (map fst rest) df_empty = Inr df"
      and out: "out = (if no_missing then dropna_columns isna df else df)"
      by (cases "foldM (returns_step D m) (map fst rest) (df_empty :: 'a dataframe)")
        (simp_all add: ebind_def)
    have "fst ` set (columns df) \<subseteq> set (map fst rest)"
      using foldM_returns_labels [OF df] by (simp add: df_empty_def)
    moreover have "set (columns out) \<subseteq> set (columns df)"
      using out by (auto simp: dropna_columns_def)
    ultimately show ?thesis
      by auto
  qed
  from same labels show ?thesis
    by blast
qed

theorem get_returns_first_column_witness:
  "get_returns (\<lambda>x. False)
     \<lparr>nrows = 3, columns = [(''Z'', [7, 0, 9]), (''A'', [100, 101, 102 :: real])]\<rparr> 1 True
   = get_returns (\<lambda>x. False)
     \<lparr>nrows = 3, columns = [(''Date'', [1, 2, 3]), (''A'', [100, 101, 102 :: real])]\<rparr> 1 True
   \<and> get_returns (\<lambda>x. False)
     \<lparr>nrows = 3, columns = [(''Date'', [1, 2, 3]), (''A'', [100, 101, 102 :: real])]\<rparr> 1 True
   = Inr \<lparr>nrows = 2, columns = [(''A'', [1 / 100, 1 / 101])]\<rparr>"
proof -
  let ?D = "\<lparr>nrows = 3, columns = [(''Date'', [1, 2, 3]), (''A'', [100, 101, 102 :: real])]\<rparr>"
  let ?D' = "\<lparr>nrows = 3, columns = [(''Z'', [7, 0, 9]), (''A'', [100, 101, 102 :: real])]\<rparr>"
  have h1: "wf_df ?D" and h2: "wf_df ?D'"
    by (simp_all add: wf_df_def)
  have h3: "columns ?D = (''Date'', [1, 2, 3]) # [(''A'', [100, 101, 102])]"
    and h4: "columns ?D' = (''Z'', [7, 0, 9]) # [(''A'', [100, 101, 102])]"
    by simp_all
  have same: "get_returns (\<lambda>x. False) ?D' 1 True = get_returns (\<lambda>x. False) ?D 1 True"
    using get_returns_first_column [OF h1 h2 h3 h4, of "\<lambda>x. False" 1 True] by blast
  have val: "get_returns (\<lambda>x. False) ?D 1 True
             = Inr \<lparr>nrows = 2, columns = [(''A'', [1 / 100, 1 / 101])]\<rparr>"
    by (simp add: get_returns_def py_slice_def py_bound_def returns_step_def df_getitem_def
        np_divide_def df_setitem_def df_empty_def dropna_columns_def ebind_def)
  from same val show ?thesis
    by blast
qed

section \<open>Binary targets\<close>

lemma py_median_nonempty:
  assumes "\<forall>xs. length (cell_sorted ops xs) = length xs" and "xs \<noteq> []"
  shows "\<exists>med. py_median ops xs = Inr med"
proof -
  let ?data = "cell_sorted ops xs"
  have n0: "length ?data \<noteq> 0"
    using assms by simp
  show ?thesis
  proof (cases "length ?data mod 2 = 1")
    case True
    have "py_median ops xs = Inr (?data ! (length ?data div 2))"
      unfolding py_median_def Let_def by (simp only: n0 True if_False if_True refl)
    then show ?thesis
      by blast
  next
    case False
    have "py_median ops xs
          = Inr (cell_mean ops (?data ! (length ?data div 2 - 1)) (?data ! (length ?data div 2)))"
      unfolding py_median_def Let_def by (simp only: n0 False if_False refl)
    then show ?thesis
      by blast
  qed
qed

lemma row_median_eq:
  assumes "\<forall>xs. length (cell_sorted ops xs) = length xs" and "columns d \<noteq> []"
  shows "py_median ops (map (\<lambda>p. snd p ! t) (columns d)) = Inr (row_median ops d t)"
proof -
  obtain med where "py_median ops (map (\<lambda>p. snd p ! t) (columns d)) = Inr med"
    using assms py_median_nonempty [of ops "map (\<lambda>p. snd p ! t) (columns d)"] by auto
  then show ?thesis
    by (simp add: row_median_def)
qed

text \<open>
  The loop refines \<open>label_rows\<close>: after \<open>k\<close> iterations the object holds
  \<open>label_rows ops k d\<close>, where \<open>d\<close> is the table the call found. Row \<open>k\<close> is still the
  original one when iteration \<open>k\<close> reads it, although the reads go through the object
  that is being overwritten.
\<close>

lemma label_rows_nrows [simp]: "nrows (label_rows ops k d) = nrows d"
  by (simp add: label_rows_def)

lemma label_rows_length [simp]: "length (columns (label_rows ops k d)) = length (columns d)"
  by (simp add: label_rows_def)

lemma label_rows_names [simp]: "map fst (columns (label_rows ops k d)) = map fst (columns d)"
  by (simp add: label_rows_def comp_def)

lemma label_rows_zero: "label_rows ops 0 d = d"
  by (simp add: label_rows_def map_nth)

lemma label_rows_column:
  assumes "j < length (columns d)"
  shows "columns (label_rows ops k d) ! j
         = (fst (columns d ! j),
            map (\<lambda>t. if t < k then label_cell ops (row_median ops d t) (snd (columns d ! j) ! t)
                      else snd (columns d ! j) ! t)
              [0..<length (snd (columns d ! j))])"
  using assms by (simp add: label_rows_def)

lemma wf_df_column_length:
  assumes "wf_df d" and "j < length (columns d)"
  shows "length (snd (columns d ! j)) = nrows d"
  using assms by (simp add: wf_df_def list_all_length)


lemma label_rows_row:
  assumes "wf_df d" and "k \<le> t" and "t < nrows d"
  shows "map (\<lambda>p. snd p ! t) (columns (label_rows ops k d)) = map (\<lambda>p. snd p ! t) (columns d)"
proof (intro nth_equalityI)
  show "length (map (\<lambda>p. snd p ! t) (columns (label_rows ops k d)))
        = length (map (\<lambda>p. snd p ! t) (columns d))"
    by simp
next
  fix j
  assume "j < length (map (\<lambda>p. snd p ! t) (columns (label_rows ops k d)))"
  then have j: "j < length (columns d)"
    by simp
  have "t < length (snd (columns d ! j))"
    using assms(1,3) j by (simp add: wf_df_column_length)
  then show "map (\<lambda>p. snd p ! t) (columns (label_rows ops k d)) ! j
             = map (\<lambda>p. snd p ! t) (columns d) ! j"
    using j assms(2) by (simp add: label_rows_column)
qed

lemma map2_same: "map2 f xs (map g xs) = map (\<lambda>x. f x (g x)) xs"
  by (induction xs) auto

lemma label_rows_Suc:
  assumes "wf_df d" and "k < nrows d"
  shows "label_rows ops k d
           \<lparr>columns := map (\<lambda>p. (fst p, (snd p)[k := label_cell ops (row_median ops d k) (snd p ! k)]))
                         (columns (label_rows ops k d))\<rparr>
         = label_rows ops (Suc k) d"
proof -
  have col: "(fst q, (snd q)[k := label_cell ops (row_median ops d k) (snd q ! k)])
             = (fst p, map (\<lambda>t. if t < Suc k then label_cell ops (row_median ops d t) (snd p ! t)
                                  else snd p ! t) [0..<length (snd p)])"
    if p: "p \<in> set (columns d)"
      and q: "q = (fst p, map (\<lambda>t. if t < k then label_cell ops (row_median ops d t) (snd p ! t)
                                  else snd p ! t) [0..<length (snd p)])"
    for p q
  proof -
    have len: "length (snd p) = nrows d"
      using assms(1) p by (auto simp: wf_df_def list_all_iff)
    have "(snd q)[k := label_cell ops (row_median ops d k) (snd q ! k)]
          = map (\<lambda>t. if t < Suc k then label_cell ops (row_median ops d t) (snd p ! t)
                      else snd p ! t) [0..<length (snd p)]"
      using assms(2) len q by (intro nth_equalityI) (auto simp: nth_list_update less_Suc_eq)
    then show ?thesis
      using q by simp
  qed
  have "map (\<lambda>p. (fst p, (snd p)[k := label_cell ops (row_median ops d k) (snd p ! k)]))
          (columns (label_rows ops k d))
        = columns (label_rows ops (Suc k) d)"
    unfolding label_rows_def using col by (simp add: comp_def)
  then show ?thesis
    by (simp add: label_rows_def)
qed

lemma binary_step_row:
  assumes "wf_df d" and "columns d \<noteq> []" and "k < nrows d" and "h r = Some (label_rows ops k d)"
    and "\<forall>xs. length (cell_sorted ops xs) = length xs"
  shows "binary_step ops r r k h = Inr (h(r \<mapsto> label_rows ops (Suc k) d))"
proof -
  let ?dk = "label_rows ops k d"
  let ?row = "map (\<lambda>p. snd p ! k) (columns d)"
  have row: "df_iloc ?dk k = Inr ?row"
    using assms(1,3) by (simp add: df_iloc_def label_rows_row)
  have med: "py_median ops ?row = Inr (row_median ops d k)"
    using assms(5,2) by (rule row_median_eq)
  have rowk: "map (\<lambda>p. snd p ! k) (columns ?dk) = ?row"
    using assms(1,3) by (simp add: label_rows_row)
  have "map2 (\<lambda>p v. (fst p, (snd p)[k := v])) (columns ?dk)
          (map (label_cell ops (row_median ops d k)) ?row)
        = map2 (\<lambda>p v. (fst p, (snd p)[k := v])) (columns ?dk)
          (map (\<lambda>p. label_cell ops (row_median ops d k) (snd p ! k)) (columns ?dk))"
    unfolding rowk [symmetric] by (simp add: comp_def)
  also have "\<dots> = map (\<lambda>p. (fst p, (snd p)[k := label_cell ops (row_median ops d k) (snd p ! k)]))
                     (columns ?dk)"
    by (rule map2_same)
  finally have "df_iloc_set ?dk k (map (label_cell ops (row_median ops d k)) ?row)
        = Inr (?dk\<lparr>columns :=
                 map (\<lambda>p. (fst p, (snd p)[k := label_cell ops (row_median ops d k) (snd p ! k)]))
                   (columns ?dk)\<rparr>)"
    using assms(3) by (simp add: df_iloc_set_def)
  then have set: "df_iloc_set ?dk k (map (label_cell ops (row_median ops d k)) ?row)
                  = Inr (label_rows ops (Suc k) d)"
    using assms(1,3) by (simp add: label_rows_Suc)
  show ?thesis
    by (simp add: binary_step_def assms(4) row med set ebind_def del: map_map)
qed

lemma binary_loop_rows:
  assumes "wf_df d" and "columns d \<noteq> []" and "k \<le> nrows d" and "h r = Some (label_rows ops k d)"
    and "\<forall>xs. length (cell_sorted ops xs) = length xs"
  shows "binary_loop ops r r [k..<nrows d] h = (h(r \<mapsto> label_rows ops (nrows d) d), None)"
  using assms(3,4)
proof (induction "nrows d - k" arbitrary: k h)
  case 0
  then have "k = nrows d"
    by simp
  moreover have "h(r \<mapsto> label_rows ops k d) = h"
    using "0.prems"(2) by (simp add: fun_upd_idem)
  ultimately show ?case
    by simp
next
  case (Suc n)
  then have lt: "k < nrows d"
    by simp
  have step: "binary_step ops r r k h = Inr (h(r \<mapsto> label_rows ops (Suc k) d))"
    using assms(1,2) lt Suc.prems(2) assms(5) by (rule binary_step_row)
  have "binary_loop ops r r [Suc k..<nrows d] (h(r \<mapsto> label_rows ops (Suc k) d))
        = ((h(r \<mapsto> label_rows ops (Suc k) d))(r \<mapsto> label_rows ops (nrows d) d), None)"
    using Suc.hyps(2) lt by (intro Suc.hyps(1)) simp_all
  then show ?case
    using lt step by (simp add: upt_conv_Cons)
qed

lemma binary_targets_closed:
  assumes "h r = Some d" and "wf_df d" and "columns d \<noteq> [] \<or> nrows d = 0"
    and "\<forall>xs. length (cell_sorted ops xs) = length xs"
  shows "binary_targets ops h r = (h(r \<mapsto> label_rows ops (nrows d) d), Inr r)"
proof (cases "nrows d = 0")
  case True
  have "h(r \<mapsto> d) = h"
    using assms(1) by (simp add: fun_upd_idem)
  then show ?thesis
    using True assms(1) by (simp add: binary_targets_def label_rows_zero)
next
  case False
  then have c: "columns d \<noteq> []"
    using assms(3) by simp
  have "binary_loop ops r r [0..<nrows d] h = (h(r \<mapsto> label_rows ops (nrows d) d), None)"
    using assms(2) c by (rule binary_loop_rows) (simp_all add: label_rows_zero assms(1,4))
  then show ?thesis
    using assms(1) by (simp add: binary_targets_def)
qed









lemma dataframe_columns_update_eq:
  "d\<lparr>columns := cs\<rparr> = d \<longleftrightarrow> cs = columns d"
  by (cases d) auto

lemma label_rows_column_all:
  assumes "wf_df d" and "j < length (columns d)"
  shows "columns (label_rows ops (nrows d) d) ! j
         = (fst (columns d ! j),
            map (\<lambda>t. label_cell ops (row_median ops d t) (snd (columns d ! j) ! t)) [0..<nrows d])"
proof -
  have len: "length (snd (columns d ! j)) = nrows d"
    using assms by (rule wf_df_column_length)
  have "map (\<lambda>t. if t < nrows d then label_cell ops (row_median ops d t) (snd (columns d ! j) ! t)
                  else snd (columns d ! j) ! t) [0..<nrows d]
        = map (\<lambda>t. label_cell ops (row_median ops d t) (snd (columns d ! j) ! t)) [0..<nrows d]"
    by (intro nth_equalityI) simp_all
  then show ?thesis
    using assms(2) len by (simp add: label_rows_column)
qed

lemma label_rows_fixed:
  assumes "wf_df d"
  shows "label_rows ops (nrows d) d = d
         \<longleftrightarrow> (\<forall>j < length (columns d). \<forall>t < nrows d.
                snd (columns d ! j) ! t = label_cell ops (row_median ops d t) (snd (columns d ! j) ! t))"
proof -
  have col: "columns (label_rows ops (nrows d) d) ! j = columns d ! j
             \<longleftrightarrow> (\<forall>t < nrows d.
                    snd (columns d ! j) ! t = label_cell ops (row_median ops d t) (snd (columns d ! j) ! t))"
    if j: "j < length (columns d)" for j
  proof -
    have len: "length (snd (columns d ! j)) = nrows d"
      using assms j by (rule wf_df_column_length)
    have "columns (label_rows ops (nrows d) d) ! j = columns d ! j
          \<longleftrightarrow> map (\<lambda>t. label_cell ops (row_median ops d t) (snd (columns d ! j) ! t)) [0..<nrows d]
              = snd (columns d ! j)"
      unfolding label_rows_column_all [OF assms j] by (simp add: prod_eq_iff)
    also have "\<dots> \<longleftrightarrow> (\<forall>t < nrows d.
                  label_cell ops (row_median ops d t) (snd (columns d ! j) ! t) = snd (columns d ! j) ! t)"
      using len by (simp add: list_eq_iff_nth_eq)
    also have "\<dots> \<longleftrightarrow> (\<forall>t < nrows d.
                  snd (columns d ! j) ! t = label_cell ops (row_median ops d t) (snd (columns d ! j) ! t))"
      by (rule all_cong1) (rule imp_cong, rule refl, rule eq_commute)
    finally show ?thesis .
  qed
  have "label_rows ops (nrows d) d = d \<longleftrightarrow> columns (label_rows ops (nrows d) d) = columns d"
    by (simp add: label_rows_def dataframe_columns_update_eq)
  also have "\<dots> \<longleftrightarrow> (\<forall>j < length (columns d). columns (label_rows ops (nrows d) d) ! j = columns d ! j)"
    by (simp add: list_eq_iff_nth_eq)
  finally show ?thesis
    using col by simp
qed

text \<open>
  C9, as the code has it. Let \<open>R\<close>, the object at reference \<open>r\<close>, have a company column
  (or no row). \<open>binary_targets\<close> returns \<open>r\<close> itself, and the store it leaves differs
  from the one it found at \<open>r\<close> only, where the labelled table now stands: no object is
  added. The store is the same as before exactly when every cell of \<open>R\<close> was already
  equal to its own label. This holds for every cell type whose \<open>sorted\<close> keeps the number
  of elements, whatever its comparison and its rounding.
\<close>

theorem binary_targets_in_place:
  assumes "h r = Some R" and "wf_df R" and "columns R \<noteq> [] \<or> nrows R = 0"
    and "\<forall>xs. length (cell_sorted ops xs) = length xs"
  shows "binary_targets ops h r = (h(r \<mapsto> label_rows ops (nrows R) R), Inr r)
       \<and> dom (fst (binary_targets ops h r)) = dom h
       \<and> (fst (binary_targets ops h r) = h
           \<longleftrightarrow> (\<forall>j < length (columns R). \<forall>t < nrows R.
                  snd (columns R ! j) ! t = label_cell ops (row_median ops R t) (snd (columns R ! j) ! t)))"
proof -
  have res: "binary_targets ops h r = (h(r \<mapsto> label_rows ops (nrows R) R), Inr r)"
    using assms by (rule binary_targets_closed)
  have dom: "dom (h(r \<mapsto> label_rows ops (nrows R) R)) = dom h"
    using assms(1) by auto
  have "h(r \<mapsto> label_rows ops (nrows R) R) = h \<longleftrightarrow> label_rows ops (nrows R) R = R"
    using assms(1) by (metis fun_upd_same fun_upd_triv option.inject)
  then have same: "h(r \<mapsto> label_rows ops (nrows R) R) = h
           \<longleftrightarrow> (\<forall>j < length (columns R). \<forall>t < nrows R.
                  snd (columns R ! j) ! t = label_cell ops (row_median ops R t) (snd (columns R ! j) ! t))"
    using label_rows_fixed [OF assms(2)] by simp
  show ?thesis
    using dom same by (simp add: res)
qed

theorem binary_targets_in_place_witness:
  "binary_targets real_cells
     (Map.empty(0 \<mapsto> \<lparr>nrows = 1, columns = [(''A'', [1/100]), (''B'', [- (2/100)]),
                                              (''C'', [3/100]), (''D'', [0 :: real])]\<rparr>)) 0
   = (Map.empty(0 \<mapsto> \<lparr>nrows = 1, columns = [(''A'', [1]), (''B'', [0]), (''C'', [1]), (''D'', [0])]\<rparr>),
      Inr 0)"
proof -
  let ?R = "\<lparr>nrows = 1, columns = [(''A'', [1/100]), (''B'', [- (2/100)]),
                                   (''C'', [3/100]), (''D'', [0 :: real])]\<rparr>"
  let ?h = "Map.empty(0 \<mapsto> ?R) :: real store"
  have h1: "?h 0 = Some ?R"
    by simp
  have h2: "wf_df ?R"
    by (simp add: wf_df_def)
  have h3: "columns ?R \<noteq> [] \<or> nrows ?R = 0"
    by simp
  have h4: "\<forall>xs. length (cell_sorted real_cells xs) = length xs"
    by (simp add: real_cells_def)
  have r: "binary_targets real_cells ?h 0
           = (?h(0 \<mapsto> label_rows real_cells (nrows ?R) ?R), Inr 0)"
    using binary_targets_in_place [of ?h 0 ?R real_cells, OF h1 h2 h3 h4] by blast
  have "label_rows real_cells (nrows ?R) ?R
        = \<lparr>nrows = 1, columns = [(''A'', [1]), (''B'', [0]), (''C'', [1]), (''D'', [0])]\<rparr>"
    by (simp add: label_rows_def row_median_def py_median_def label_cell_def real_cells_def)
  then show ?thesis
    using r by simp
qed

text \<open>
  C9 as stated fails on a table that already holds its labels: one row with the returns
  0 and 1 has the median 1/2 and the labels 0 and 1, so the caller's table still
  contains the original values after the call.
\<close>

theorem binary_targets_unchanged_table:
  "binary_targets real_cells
     (Map.empty(0 \<mapsto> \<lparr>nrows = 1, columns = [(''A'', [0]), (''B'', [1 :: real])]\<rparr>)) 0
   = (Map.empty(0 \<mapsto> \<lparr>nrows = 1, columns = [(''A'', [0]), (''B'', [1])]\<rparr>), Inr 0)"
  by (simp add: binary_targets_def binary_step_def df_iloc_def df_iloc_set_def py_median_def
      label_cell_def real_cells_def ebind_def)

section \<open>Tensors\<close>

lemma ebind_Inr: "ebind m f = Inr r \<longleftrightarrow> (\<exists>x. m = Inr x \<and> f x = Inr r)"
  by (cases m) (simp_all add: ebind_def)

lemma py_bound_le: "py_bound n k \<le> n"
  by (simp add: py_bound_def nat_le_iff)

lemma py_slice_head: "py_slice None (Some k) xs = take (py_bound (length xs) k) xs"
  by (simp add: py_slice_def)

lemma py_slice_tail: "py_slice (Some k) None xs = drop (py_bound (length xs) k) xs"
  by (simp add: py_slice_def)

lemma length_py_slice: "length (py_slice lo hi xs) = length (py_slice lo hi [0..<length xs])"
  by (simp add: py_slice_def Let_def)

lemma df_slice_wf:
  assumes "wf_df d"
  shows "wf_df (df_slice lo hi d)"
proof -
  have "length (py_slice lo hi (snd p)) = length (py_slice lo hi [0..<nrows d])"
    if "p \<in> set (columns d)" for p
  proof -
    have "length (snd p) = nrows d"
      using assms that by (auto simp: wf_df_def list_all_iff)
    then show ?thesis
      using length_py_slice [of lo hi "snd p"] by simp
  qed
  then show ?thesis
    using assms by (simp add: wf_df_def df_slice_def list_all_iff comp_def)
qed

lemma df_slice_head:
  assumes "wf_df d"
  shows "df_slice None (Some k) d
         = \<lparr>nrows = py_bound (nrows d) k,
            columns = map (\<lambda>p. (fst p, take (py_bound (nrows d) k) (snd p))) (columns d)\<rparr>"
proof -
  have "map (\<lambda>p. (fst p, py_slice None (Some k) (snd p))) (columns d)
        = map (\<lambda>p. (fst p, take (py_bound (nrows d) k) (snd p))) (columns d)"
    using assms by (intro map_cong) (auto simp: py_slice_head wf_df_def list_all_iff)
  then show ?thesis
    using py_bound_le [of "nrows d" k] by (simp add: df_slice_def py_slice_head min_def)
qed

lemma df_slice_tail:
  assumes "wf_df d"
  shows "df_slice (Some k) None d
         = \<lparr>nrows = nrows d - py_bound (nrows d) k,
            columns = map (\<lambda>p. (fst p, drop (py_bound (nrows d) k) (snd p))) (columns d)\<rparr>"
proof -
  have "map (\<lambda>p. (fst p, py_slice (Some k) None (snd p))) (columns d)
        = map (\<lambda>p. (fst p, drop (py_bound (nrows d) k) (snd p))) (columns d)"
    using assms by (intro map_cong) (auto simp: py_slice_tail wf_df_def list_all_iff)
  then show ?thesis
    by (simp add: df_slice_def py_slice_tail)
qed

lemma those_length:
  assumes "those xs = Some ys"
  shows "length ys = length xs"
  using assms by (induction xs arbitrary: ys) (auto split: option.splits)

lemma fit_transform_result:
  assumes "fit_transform sc st d = Inr (st', arr)" and "wf_df d"
  shows "length arr = length (columns d)"
    and "list_all (\<lambda>col. length col = nrows d) arr"
    and "standardize sc d = Inr (df_with_values d arr)"
proof -
  have ok: "\<not> (nrows d = 0 \<or> columns d = [])"
    using assms(1) by (auto simp: fit_transform_def split: if_splits)
  then obtain stats where stats: "those (map (\<lambda>p. fit_column sc (snd p)) (columns d)) = Some stats"
    and arr: "arr = map2 (\<lambda>s p. map (transform_cell sc s) (snd p)) stats (columns d)"
    using assms(1) by (auto simp: fit_transform_def split: option.splits)
  have len: "length stats = length (columns d)"
    using those_length [OF stats] by simp
  show "length arr = length (columns d)"
    using arr len by simp
  have cols: "length (snd p) = nrows d" if "p \<in> set (columns d)" for p
    using assms(2) that by (auto simp: wf_df_def list_all_iff)
  show "list_all (\<lambda>col. length col = nrows d) arr"
    unfolding arr list_all_iff using cols by (auto dest!: set_zip_rightD)
  have "map2 (\<lambda>p col. (fst p, col)) (columns d) arr
        = map2 (\<lambda>s p. (fst p, map (transform_cell sc s) (snd p))) stats (columns d)"
    unfolding arr using len by (intro nth_equalityI) simp_all
  then show "standardize sc d = Inr (df_with_values d arr)"
    using ok stats by (simp add: standardize_def df_with_values_def)
qed

lemma fit_transform_state: "fit_transform sc st d = fit_transform sc None d"
  by (simp add: fit_transform_def)

lemma df_set_rows_head:
  assumes "wf_df d" and "length arr = length (columns d)"
    and "list_all (\<lambda>col. length col = py_bound (nrows d) k) arr"
  shows "\<exists>d1. df_set_rows None (Some k) arr d = Inr d1 \<and> wf_df d1 \<and> nrows d1 = nrows d
           \<and> length (columns d1) = length (columns d)
           \<and> df_slice None (Some k) d1 = df_with_values (df_slice None (Some k) d) arr
           \<and> df_slice (Some k) None d1 = df_slice (Some k) None d"
proof -
  let ?a = "py_bound (nrows d) k"
  let ?d1 = "d\<lparr>columns := map2 (\<lambda>p col. (fst p, col @ drop ?a (snd p))) (columns d) arr\<rparr>"
  have a: "?a \<le> nrows d"
    by (rule py_bound_le)
  have col: "length (snd (columns d ! j)) = nrows d" if "j < length (columns d)" for j
    using assms(1) that by (simp add: wf_df_def list_all_length)
  have arr: "length (arr ! j) = ?a" if "j < length (columns d)" for j
    using assms(2,3) that by (simp add: list_all_length)
  have set: "df_set_rows None (Some k) arr d = Inr ?d1"
    using assms(2,3) by (simp add: df_set_rows_def Let_def)
  have names: "map fst (columns ?d1) = map fst (columns d)"
    using assms(2) by (intro nth_equalityI) simp_all
  have lens: "list_all (\<lambda>p. length (snd p) = nrows d) (columns ?d1)"
    using assms(2) a col arr by (simp add: list_all_length)
  have wf: "wf_df ?d1"
    using assms(1) names lens by (simp add: wf_df_def)
  have head: "df_slice None (Some k) ?d1 = df_with_values (df_slice None (Some k) d) arr"
  proof (rule dataframe.equality)
    show "nrows (df_slice None (Some k) ?d1) = nrows (df_with_values (df_slice None (Some k) d) arr)"
      by (simp add: df_slice_head [OF wf] df_slice_head [OF assms(1)] df_with_values_def)
    show "columns (df_slice None (Some k) ?d1)
          = columns (df_with_values (df_slice None (Some k) d) arr)"
      unfolding df_slice_head [OF wf] df_slice_head [OF assms(1)] df_with_values_def
      using assms(2) arr by (intro nth_equalityI) simp_all
  qed simp
  have tail: "df_slice (Some k) None ?d1 = df_slice (Some k) None d"
  proof (rule dataframe.equality)
    show "nrows (df_slice (Some k) None ?d1) = nrows (df_slice (Some k) None d)"
      by (simp add: df_slice_tail [OF wf] df_slice_tail [OF assms(1)])
    show "columns (df_slice (Some k) None ?d1) = columns (df_slice (Some k) None d)"
      unfolding df_slice_tail [OF wf] df_slice_tail [OF assms(1)]
      using assms(2) arr by (intro nth_equalityI) simp_all
  qed simp
  have "length (columns ?d1) = length (columns d)"
    using assms(2) by simp
  with set wf head tail show ?thesis
    by (intro exI [of _ ?d1]) simp
qed

lemma df_set_rows_tail:
  assumes "wf_df d" and "length arr = length (columns d)"
    and "list_all (\<lambda>col. length col = nrows d - py_bound (nrows d) k) arr"
  shows "\<exists>d2. df_set_rows (Some k) None arr d = Inr d2
           \<and> df_slice (Some k) None d2 = df_with_values (df_slice (Some k) None d) arr"
proof -
  let ?a = "py_bound (nrows d) k"
  let ?d2 = "d\<lparr>columns := map2 (\<lambda>p col. (fst p, take ?a (snd p) @ col @ drop (nrows d) (snd p))) (columns d) arr\<rparr>"
  have a: "?a \<le> nrows d"
    by (rule py_bound_le)
  have col: "length (snd (columns d ! j)) = nrows d" if "j < length (columns d)" for j
    using assms(1) that by (simp add: wf_df_def list_all_length)
  have arr: "length (arr ! j) = nrows d - ?a" if "j < length (columns d)" for j
    using assms(2,3) that by (simp add: list_all_length)
  have set: "df_set_rows (Some k) None arr d = Inr ?d2"
    using assms(2,3) a by (simp add: df_set_rows_def max_def Let_def)
  have names: "map fst (columns ?d2) = map fst (columns d)"
    using assms(2) by (intro nth_equalityI) simp_all
  have lens: "list_all (\<lambda>p. length (snd p) = nrows d) (columns ?d2)"
    using assms(2) a col arr by (simp add: list_all_length)
  have wf: "wf_df ?d2"
    using assms(1) names lens by (simp add: wf_df_def)
  have "df_slice (Some k) None ?d2 = df_with_values (df_slice (Some k) None d) arr"
  proof (rule dataframe.equality)
    show "nrows (df_slice (Some k) None ?d2) = nrows (df_with_values (df_slice (Some k) None d) arr)"
      by (simp add: df_slice_tail [OF wf] df_slice_tail [OF assms(1)] df_with_values_def)
    show "columns (df_slice (Some k) None ?d2)
          = columns (df_with_values (df_slice (Some k) None d) arr)"
      unfolding df_slice_tail [OF wf] df_slice_tail [OF assms(1)] df_with_values_def
      using assms(2) a col arr by (intro nth_equalityI) simp_all
  qed simp
  with set show ?thesis
    by blast
qed

lemma py_index_in_set:
  assumes "py_index xs i = Inr x"
  shows "x \<in> set xs"
  using assms by (auto simp: py_index_def split: if_splits)

lemma split_Tperiod_wf:
  assumes "split_Tperiod df_returns df_binary len_period len_test = Inr (ps_r, ps_b)"
    and "wf_df df_returns" and "T \<in> set ps_r"
  shows "wf_df T"
proof -
  obtain starts where "ps_r = map (\<lambda>i. df_slice (Some i) (Some (len_period + i)) df_returns) starts"
    using assms(1) by (auto simp: split_Tperiod_def Let_def ebind_Inr)
  then show ?thesis
    using assms(2,3) by (auto simp: df_slice_wf)
qed

lemma df_slice_length [simp]: "length (columns (df_slice lo hi d)) = length (columns d)"
  by (simp add: df_slice_def)

text \<open>
  C7. Whenever \<open>all_data_LSTM\<close> succeeds on a table, its two tensors are the windows of
  two separately standardized segments of the selected study period: the training tensor
  comes from the first \<open>len_train\<close> rows standardized by a scaler fit on those rows,
  the test tensor from the remaining rows standardized by a scaler fit on the remaining
  rows themselves. The statistics of the training rows do not enter the test tensor:
  although one scaler object serves both calls and the period is overwritten in place
  between them, the second \<open>fit_transform\<close> sees the original test rows and fits anew.
\<close>

theorem all_data_LSTM_scaling:
  assumes "all_data_LSTM sc df_returns df_binary period len_train
           = Inr (X_train, y_train, X_test, y_test)"
    and "wf_df df_returns"
  shows "\<exists>periods_returns periods_binary T1_input T1_target train test Xtr Xte.
           split_Tperiod df_returns df_binary 1308 327 = Inr (periods_returns, periods_binary)
         \<and> py_index periods_returns period = Inr T1_input
         \<and> py_index periods_binary period = Inr T1_target
         \<and> standardize sc (df_slice None (Some len_train) T1_input) = Inr train
         \<and> standardize sc (df_slice (Some len_train) None T1_input) = Inr test
         \<and> get_train_set train (df_slice None (Some len_train) T1_target) = Inr (Xtr, y_train)
         \<and> get_train_set test (df_slice (Some len_train) None T1_target) = Inr (Xte, y_test)
         \<and> X_train = map (map (\<lambda>x. [x])) Xtr
         \<and> X_test = map (map (\<lambda>x. [x])) Xte"
proof -
  obtain pr pb T Tt st1 a1 d1 st2 a2 d2 Xtr Xte
    where split: "split_Tperiod df_returns df_binary 1308 327 = Inr (pr, pb)"
      and T: "py_index pr period = Inr T"
      and Tt: "py_index pb period = Inr Tt"
      and fit1: "fit_transform sc None (df_slice None (Some len_train) T) = Inr (st1, a1)"
      and set1: "df_set_rows None (Some len_train) a1 T = Inr d1"
      and fit2: "fit_transform sc st1 (df_slice (Some len_train) None d1) = Inr (st2, a2)"
      and set2: "df_set_rows (Some len_train) None a2 d1 = Inr d2"
      and train: "get_train_set (df_slice None (Some len_train) d1)
                    (df_slice None (Some len_train) Tt) = Inr (Xtr, y_train)"
      and test: "get_train_set (df_slice (Some len_train) None d2)
                    (df_slice (Some len_train) None Tt) = Inr (Xte, y_test)"
      and X: "X_train = map (map (\<lambda>x. [x])) Xtr" "X_test = map (map (\<lambda>x. [x])) Xte"
    using assms(1) unfolding all_data_LSTM_def Let_def by (auto simp: ebind_Inr)
  let ?head = "df_slice None (Some len_train) T"
  let ?tail = "df_slice (Some len_train) None T"
  have wfT: "wf_df T"
    using split assms(2) py_index_in_set [OF T] by (rule split_Tperiod_wf)
  have wfh: "wf_df ?head" and wft: "wf_df ?tail"
    using wfT by (simp_all add: df_slice_wf)
  have nh: "nrows ?head = py_bound (nrows T) len_train"
    and nt: "nrows ?tail = nrows T - py_bound (nrows T) len_train"
    by (simp_all add: df_slice_head [OF wfT] df_slice_tail [OF wfT])
  note r1 = fit_transform_result [OF fit1 wfh]
  have s1: "standardize sc ?head = Inr (df_with_values ?head a1)"
    by (rule r1(3))
  obtain d1' where d1': "df_set_rows None (Some len_train) a1 T = Inr d1'"
    and wf1: "wf_df d1'" and n1: "nrows d1' = nrows T"
    and c1: "length (columns d1') = length (columns T)"
    and h1: "df_slice None (Some len_train) d1' = df_with_values ?head a1"
    and t1: "df_slice (Some len_train) None d1' = ?tail"
    using df_set_rows_head [OF wfT, of a1 len_train] r1(1,2) nh by auto
  have d1: "d1' = d1"
    using d1' set1 by simp
  have fit2': "fit_transform sc None ?tail = Inr (st2, a2)"
    using fit2 t1 d1 fit_transform_state [of sc st1 ?tail] by simp
  note r2 = fit_transform_result [OF fit2' wft]
  have s2: "standardize sc ?tail = Inr (df_with_values ?tail a2)"
    by (rule r2(3))
  obtain d2' where d2': "df_set_rows (Some len_train) None a2 d1 = Inr d2'"
    and t2: "df_slice (Some len_train) None d2' = df_with_values (df_slice (Some len_train) None d1) a2"
    using df_set_rows_tail [of d1 a2 len_train] wf1 r2(1,2) nt n1 c1 d1 by auto
  have d2: "d2' = d2"
    using d2' set2 by simp
  have train': "get_train_set (df_with_values ?head a1) (df_slice None (Some len_train) Tt)
                = Inr (Xtr, y_train)"
    using train h1 d1 by simp
  have test': "get_train_set (df_with_values ?tail a2) (df_slice (Some len_train) None Tt)
                = Inr (Xte, y_test)"
    using test t2 t1 d1 d2 by simp
  from split T Tt s1 s2 train' test' X show ?thesis
    by blast
qed

lemma mapM_Inr_set:
  assumes "mapM f xs = Inr ys" and "y \<in> set ys"
  shows "\<exists>x \<in> set xs. f x = Inr y"
  using assms by (induction xs arbitrary: ys) (auto split: sum.splits)

lemma get_sequences_window_length:
  assumes "get_sequences r b n = Inr (X, y)" and "0 \<le> n" and "w \<in> set X"
  shows "length w = nat n"
proof -
  have "X = map (\<lambda>i. py_slice (Some i) (Some (i + n)) r) (py_range1 (int (length r) - n))"
    using assms(1) by (auto simp: get_sequences_def Let_def ebind_Inr)
  then obtain k where k: "k < nat (int (length r) - n)"
    and w: "w = py_slice (Some (int k)) (Some (int k + n)) r"
    using assms(3) by (auto simp: py_range1_def)
  have fits: "k + nat n \<le> length r"
    using k assms(2) by linarith
  then have "w = take (nat n) (drop k r)"
    using w assms(2) by (simp add: py_slice_window)
  then show ?thesis
    using fits by simp
qed

lemma get_train_set_shape:
  assumes "get_train_set d1 d2 = Inr (X, y)"
  shows "X \<noteq> []" and "\<forall>w \<in> set X. length w = 240"
proof -
  obtain seqs where seqs: "mapM (\<lambda>comp.
              ebind (df_getitem d1 comp) (\<lambda>r.
              ebind (df_getitem d2 comp) (\<lambda>b.
                get_sequences r b 240)))
            (map fst (columns d1)) = Inr seqs"
    and X: "reshape_X (map fst seqs) = Inr X"
    using assms by (auto simp: get_train_set_def ebind_Inr np_array3_def split: if_splits)
  have c: "concat (map fst seqs) \<noteq> []"
    using X by (cases "concat (map fst seqs) = []") (simp_all add: reshape_X_def)
  then have Xc: "X = concat (map fst seqs)"
    using X by (simp add: reshape_X_def split: if_splits)
  have ne: "X \<noteq> []"
    using c Xc by simp
  show "X \<noteq> []"
    by (rule ne)
  show "\<forall>w \<in> set X. length w = 240"
  proof
    fix w
    assume "w \<in> set X"
    then obtain q where q: "q \<in> set seqs" and w: "w \<in> set (fst q)"
      using Xc by auto
    obtain comp where "ebind (df_getitem d1 comp) (\<lambda>r.
              ebind (df_getitem d2 comp) (\<lambda>b. get_sequences r b 240)) = Inr q"
      using mapM_Inr_set [OF seqs q] by blast
    then obtain r b where "get_sequences r b 240 = Inr (fst q, snd q)"
      by (auto simp: ebind_Inr)
    then have "length w = nat 240"
      using w by (intro get_sequences_window_length [of r b 240 "fst q" "snd q"]) simp_all
    then show "length w = 240"
      by simp
  qed
qed

lemma all_data_LSTM_nonempty:
  assumes "all_data_LSTM sc df_returns df_binary period len_train
           = Inr (X_train, y_train, X_test, y_test)"
  shows "X_train \<noteq> []" and "X_test \<noteq> []"
    and "\<forall>s \<in> set X_train \<union> set X_test. length s = 240 \<and> (\<forall>c \<in> set s. length c = 1)"
proof -
  obtain d1 d2 Xtr Xte where train: "get_train_set d1 d2 = Inr (Xtr, y_train)"
    and X: "X_train = map (map (\<lambda>x. [x])) Xtr"
    using assms unfolding all_data_LSTM_def Let_def by (auto simp: ebind_Inr)
  obtain e1 e2 Yte where test: "get_train_set e1 e2 = Inr (Yte, y_test)"
    and Y: "X_test = map (map (\<lambda>x. [x])) Yte"
    using assms unfolding all_data_LSTM_def Let_def by (auto simp: ebind_Inr)
  show "X_train \<noteq> []"
    using get_train_set_shape(1) [OF train] X by simp
  show "X_test \<noteq> []"
    using get_train_set_shape(1) [OF test] Y by simp
  show "\<forall>s \<in> set X_train \<union> set X_test. length s = 240 \<and> (\<forall>c \<in> set s. length c = 1)"
    using get_train_set_shape(2) [OF train] get_train_set_shape(2) [OF test] X Y by auto
qed

lemma concat_singletons:
  assumes "\<forall>c \<in> set cs. length c = 1"
  shows "concat cs = map hd cs"
  using assms
proof (induction cs)
  case Nil
  then show ?case by simp
next
  case (Cons c cs)
  then obtain x where "c = [x]"
    by (cases c) auto
  then show ?case
    using Cons by simp
qed

lemma concat_concat_map: "concat (concat xss) = concat (map concat xss)"
  by (induction xss) simp_all

lemma length_concat_rows:
  assumes "\<forall>r \<in> set rs. length r = k"
  shows "length (concat rs) = length rs * k"
  using assms by (induction rs) auto

lemma take_features_select:
  assumes "\<forall>s \<in> set X. length s = 240 \<and> (\<forall>c \<in> set s. length c = 1)"
    and "\<forall>j \<in> set idx. j < 240" and "length idx = 31"
  shows "take_features (map int idx) X = Inr (map (\<lambda>s. map (\<lambda>j. hd (s ! j)) idx) X)"
proof -
  have row: "mapM (\<lambda>j. py_index s j) (map int idx) = Inr (map (\<lambda>i. s ! nat i) (map int idx))"
    if "s \<in> set X" for s
    using that assms(1,2) by (intro mapM_total) (auto simp: py_index_def)
  have sel: "mapM (\<lambda>s. mapM (\<lambda>j. py_index s j) (map int idx)) X
             = Inr (map (\<lambda>s. map (\<lambda>i. s ! nat i) (map int idx)) X)"
    using row by (rule mapM_total)
  have cells: "concat (map (\<lambda>i. s ! nat i) (map int idx)) = map (\<lambda>j. hd (s ! j)) idx"
    if "s \<in> set X" for s
  proof -
    have "\<forall>c \<in> set (map (\<lambda>i. s ! nat i) (map int idx)). length c = 1"
      using that assms(1,2) by auto
    then show ?thesis
      by (simp add: concat_singletons comp_def)
  qed
  have rows: "map concat (map (\<lambda>s. map (\<lambda>i. s ! nat i) (map int idx)) X)
              = map (\<lambda>s. map (\<lambda>j. hd (s ! j)) idx) X"
    using cells by simp
  have "length (concat (map (\<lambda>s. map (\<lambda>j. hd (s ! j)) idx) X)) = length X * 31"
    using assms(3) length_concat_rows [of "map (\<lambda>s. map (\<lambda>j. hd (s ! j)) idx) X" 31] by simp
  moreover have "concat (concat (map (\<lambda>s. map (\<lambda>i. s ! nat i) (map int idx)) X))
                 = concat (map (\<lambda>s. map (\<lambda>j. hd (s ! j)) idx) X)"
    using rows by (simp only: concat_concat_map)
  ultimately have size: "length (concat (concat (map (\<lambda>s. map (\<lambda>i. s ! nat i) (map int idx)) X)))
                         = length X * 31"
    by simp
  show ?thesis
    unfolding take_features_def sel ebind_def using size rows by (simp del: map_map)
qed

lemma ebind_return: "ebind (Inr x) f = f x"
  by (simp add: ebind_def)

lemma dnn_features_range:
  "ebind (py_range 0 240 20) (\<lambda>m1. ebind (py_range 221 240 1) (\<lambda>m2. F (m1 @ m2)))
   = F (map int dnn_features)"
  by (simp add: py_range_def ebind_def dnn_features_def upt_rec)

lemma dnn_features_bounds: "\<forall>j \<in> set dnn_features. j < 240" "length dnn_features = 31"
  by (simp_all add: dnn_features_def)

text \<open>
  C8. Whenever \<open>all_data_LSTM\<close> (with the default \<open>len_train\<close>, which is what
  \<open>all_data_DNN\<close> passes) succeeds, every sequence it returns has 240 steps of one
  channel, and \<open>all_data_DNN\<close> succeeds with the same targets and, for each sequence,
  the row of its values at the time indices \<open>dnn_features\<close>, in that order: 0, 20, ...,
  220 and then 221, ..., 239. Every row has 31 features, whatever the number of
  companies.
\<close>

theorem all_data_DNN_features:
  assumes "all_data_LSTM sc df_returns df_binary period 981
           = Inr (X_train, y_train, X_test, y_test)"
  shows "\<exists>D_train D_test.
           all_data_DNN sc df_returns df_binary period len_train
             = Inr (D_train, y_train, D_test, y_test)
         \<and> D_train = map (\<lambda>s. map (\<lambda>j. hd (s ! j)) dnn_features) X_train
         \<and> D_test = map (\<lambda>s. map (\<lambda>j. hd (s ! j)) dnn_features) X_test
         \<and> (\<forall>row \<in> set D_train \<union> set D_test. length row = 31)
         \<and> (\<forall>s \<in> set X_train \<union> set X_test. length s = 240 \<and> (\<forall>c \<in> set s. length c = 1))"
proof -
  note shape = all_data_LSTM_nonempty [OF assms]
  obtain s rest where s: "X_train = s # rest"
    using shape(1) by (cases X_train) auto
  have ls: "int (length s) = 240"
    using shape(3) s by simp
  have tr: "take_features (map int dnn_features) X_train
            = Inr (map (\<lambda>s. map (\<lambda>j. hd (s ! j)) dnn_features) X_train)"
    using shape(3) dnn_features_bounds by (intro take_features_select) auto
  have te: "take_features (map int dnn_features) X_test
            = Inr (map (\<lambda>s. map (\<lambda>j. hd (s ! j)) dnn_features) X_test)"
    using shape(3) dnn_features_bounds by (intro take_features_select) auto
  have "all_data_DNN sc df_returns df_binary period len_train
        = ebind (py_range 0 240 20) (\<lambda>m1. ebind (py_range 221 240 1) (\<lambda>m2.
            ebind (take_features (m1 @ m2) X_train) (\<lambda>X_train.
            ebind (take_features (m1 @ m2) X_test) (\<lambda>X_test.
              Inr (X_train, y_train, X_test, y_test)))))"
    unfolding all_data_DNN_def assms ebind_return
    by (simp add: s ls Let_def)
  also have "\<dots> = ebind (take_features (map int dnn_features) X_train) (\<lambda>X_train.
            ebind (take_features (map int dnn_features) X_test) (\<lambda>X_test.
              Inr (X_train, y_train, X_test, y_test)))"
    by (rule dnn_features_range)
  also have "\<dots> = Inr (map (\<lambda>s. map (\<lambda>j. hd (s ! j)) dnn_features) X_train, y_train,
                    map (\<lambda>s. map (\<lambda>j. hd (s ! j)) dnn_features) X_test, y_test)"
    unfolding tr te ebind_return by (rule refl)
  finally have res: "all_data_DNN sc df_returns df_binary period len_train
             = Inr (map (\<lambda>s. map (\<lambda>j. hd (s ! j)) dnn_features) X_train, y_train,
                    map (\<lambda>s. map (\<lambda>j. hd (s ! j)) dnn_features) X_test, y_test)" .
  have rows: "\<forall>row \<in> set (map (\<lambda>s. map (\<lambda>j. hd (s ! j)) dnn_features) X_train)
                     \<union> set (map (\<lambda>s. map (\<lambda>j. hd (s ! j)) dnn_features) X_test). length row = 31"
    using dnn_features_bounds(2) by auto
  from res rows shape(3) show ?thesis
    by blast
qed

section \<open>The tensors of the concrete study period\<close>

text \<open>
  The example is evaluated symbolically: a window of a constant series is constant, so
  the tensors are \<open>replicate\<close> terms and no list of 1308 elements is ever written out.
\<close>

lemma get_sequences_replicate:
  assumes "0 < k" and "nat k \<le> n"
  shows "get_sequences (replicate n x) (replicate n y) k
         = Inr (replicate (n - nat k) (replicate (nat k) x), replicate (n - nat k) y)"
proof -
  let ?is = "py_range1 (int (length (replicate n x)) - k)"
  have len: "length ?is = n - nat k"
    using assms by (simp add: py_range1_def)
  have win: "py_slice (Some i) (Some (i + k)) (replicate n x) = replicate (nat k) x"
    if "i \<in> set ?is" for i
  proof -
    have "nat (int n - k) = n - nat k"
      using assms by simp
    then have "i \<in> int ` {0..<n - nat k}"
      using that by (simp add: py_range1_def)
    then obtain j where j: "i = int j" "j < n - nat k"
      by auto
    have "py_slice (Some (int j)) (Some (int j + k)) (replicate n x)
          = take (nat k) (drop j (replicate n x))"
      using assms j by (intro py_slice_window) simp_all
    then show ?thesis
      using j by (simp add: min_def)
  qed
  have X: "map (\<lambda>i. py_slice (Some i) (Some (i + k)) (replicate n x)) ?is
           = replicate (n - nat k) (replicate (nat k) x)"
  proof -
    have "map (\<lambda>i. py_slice (Some i) (Some (i + k)) (replicate n x)) ?is
          = map (\<lambda>i. replicate (nat k) x) ?is"
      using win by (intro map_cong) simp_all
    also have "\<dots> = replicate (length ?is) (replicate (nat k) x)"
      by (rule map_replicate_const)
    finally show ?thesis
      unfolding len .
  qed
  have tgt: "py_index (replicate n y) (i + k) = Inr y"
    if "i \<in> set (py_range1 (int (length (replicate n y)) - k))" for i
    using that assms by (auto simp: py_range1_def py_index_def)
  have y: "mapM (\<lambda>i. py_index (replicate n y) (i + k))
             (py_range1 (int (length (replicate n y)) - k))
           = Inr (map (\<lambda>i. y) (py_range1 (int (length (replicate n y)) - k)))"
    using tgt by (rule mapM_total)
  have y': "map (\<lambda>i. y) (py_range1 (int (length (replicate n y)) - k)) = replicate (n - nat k) y"
    using assms by (simp add: map_replicate_const py_range1_def)
  show ?thesis
    unfolding get_sequences_def Let_def X y y' ebind_return by (rule refl)
qed

lemma regular_replicate: "regular (replicate n w)"
  by (cases n) (simp_all add: regular_def list_all_iff)

lemma regular_single: "regular [w]"
  by (simp add: regular_def)

lemma get_train_set_constant:
  assumes "240 < n"
  shows "get_train_set \<lparr>nrows = n, columns = [(c, replicate n x)]\<rparr>
           \<lparr>nrows = n, columns = [(c, replicate n y)]\<rparr>
         = Inr (replicate (n - 240) (replicate 240 x), replicate (n - 240) y)"
proof -
  let ?X = "replicate (n - 240) (replicate 240 x)"
  let ?y = "replicate (n - 240) y"
  have seq: "get_sequences (replicate n x) (replicate n y) 240 = Inr (?X, ?y)"
    using assms get_sequences_replicate [of 240 n x y] by simp
  have seqs: "mapM (\<lambda>comp.
              ebind (df_getitem \<lparr>nrows = n, columns = [(c, replicate n x)]\<rparr> comp) (\<lambda>r.
              ebind (df_getitem \<lparr>nrows = n, columns = [(c, replicate n y)]\<rparr> comp) (\<lambda>b.
                get_sequences r b 240)))
            (map fst (columns \<lparr>nrows = n, columns = [(c, replicate n x)]\<rparr>)) = Inr [(?X, ?y)]"
    by (simp add: df_getitem_def ebind_return seq)
  have a3: "np_array3 (map fst [(?X, ?y)]) = Inr [?X]"
    by (simp add: np_array3_def regular_single regular_replicate)
  have a2: "np_array2 (map snd [(?X, ?y)]) = Inr [?y]"
    by (simp add: np_array2_def regular_single)
  have rX: "reshape_X [?X] = Inr ?X"
    using assms by (simp add: reshape_X_def)
  have ry: "reshape_y [?y] = Inr ?y"
    by (simp add: reshape_y_def)
  show ?thesis
    unfolding get_train_set_def seqs ebind_return a3 a2 rX ry by (rule refl)
qed

lemma example_wf: "wf_df example_returns" "wf_df example_binary"
  by (simp_all add: wf_df_def example_returns_def example_binary_def)

lemma example_split:
  "split_Tperiod example_returns example_binary 1308 327 = Inr ([example_returns], [example_binary])"
proof -
  have k: "nat ((int (nrows example_returns) - 1308) div 327 + 1) = 1"
    by (simp add: example_returns_def)
  have r: "df_slice (Some 0) (Some (0 + 1308)) example_returns = example_returns"
    by (subst df_slice_rows) (simp_all add: example_returns_def)
  have b: "df_slice (Some 0) (Some (0 + 1308)) example_binary = example_binary"
    by (subst df_slice_rows) (simp_all add: example_binary_def)
  have "split_Tperiod example_returns example_binary 1308 327
        = Inr (map (\<lambda>i. df_slice (Some i) (Some (1308 + i)) example_returns)
                  (map (\<lambda>k. int k * 327) [0..<1]),
                map (\<lambda>i. df_slice (Some i) (Some (1308 + i)) example_binary)
                  (map (\<lambda>k. int k * 327) [0..<1]))"
    using split_Tperiod_starts [of 327 example_returns example_binary 1308] k by simp
  then show ?thesis
    using r b by simp
qed

lemma example_segments:
  "df_slice None (Some 981) \<lparr>nrows = 1308, columns = [(c, replicate 981 x @ replicate 327 y)]\<rparr>
   = \<lparr>nrows = 981, columns = [(c, replicate 981 x)]\<rparr>"
  "df_slice (Some 981) None \<lparr>nrows = 1308, columns = [(c, replicate 981 x @ replicate 327 y)]\<rparr>
   = \<lparr>nrows = 327, columns = [(c, replicate 327 y)]\<rparr>"
proof -
  have wf: "wf_df \<lparr>nrows = 1308, columns = [(c, replicate 981 x @ replicate 327 y)]\<rparr>"
    by (simp add: wf_df_def)
  show "df_slice None (Some 981) \<lparr>nrows = 1308, columns = [(c, replicate 981 x @ replicate 327 y)]\<rparr>
        = \<lparr>nrows = 981, columns = [(c, replicate 981 x)]\<rparr>"
    by (simp add: df_slice_head [OF wf] py_bound_def)
  show "df_slice (Some 981) None \<lparr>nrows = 1308, columns = [(c, replicate 981 x @ replicate 327 y)]\<rparr>
        = \<lparr>nrows = 327, columns = [(c, replicate 327 y)]\<rparr>"
    by (simp add: df_slice_tail [OF wf] py_bound_def)
qed

lemma example_table:
  "\<lparr>nrows = 1308, columns = [(c, replicate 1308 x)]\<rparr>
   = \<lparr>nrows = 1308, columns = [(c, replicate 981 x @ replicate 327 x)]\<rparr>"
  by (simp add: replicate_add [symmetric])

lemma example_fit:
  assumes "0 < n"
  shows "fit_transform example_scaler st \<lparr>nrows = n, columns = [(c, replicate n 1)]\<rparr>
         = Inr (Some [int n], [replicate n (1 - int n)])"
  using assms by (simp add: fit_transform_def example_scaler_def sum_list_replicate)

lemma example_set_rows:
  "df_set_rows None (Some 981) [replicate 981 x']
     \<lparr>nrows = 1308, columns = [(c, replicate 981 x @ replicate 327 y)]\<rparr>
   = Inr \<lparr>nrows = 1308, columns = [(c, replicate 981 x' @ replicate 327 y)]\<rparr>"
  "df_set_rows (Some 981) None [replicate 327 y']
     \<lparr>nrows = 1308, columns = [(c, replicate 981 x @ replicate 327 y)]\<rparr>
   = Inr \<lparr>nrows = 1308, columns = [(c, replicate 981 x @ replicate 327 y')]\<rparr>"
  by (simp_all add: df_set_rows_def py_bound_def Let_def)

lemma all_data_LSTM_example:
  "all_data_LSTM example_scaler example_returns example_binary 0 981
   = Inr (replicate 741 (replicate 240 [- 980]), replicate 741 0,
          replicate 87 (replicate 240 [- 326]), replicate 87 0)"
proof -
  have ix: "py_index [d] 0 = Inr d" for d :: "int dataframe"
    by (simp add: py_index_def)
  have R: "example_returns = \<lparr>nrows = 1308, columns = [(''A'', replicate 981 1 @ replicate 327 1)]\<rparr>"
    unfolding example_returns_def by (rule example_table)
  have B: "example_binary = \<lparr>nrows = 1308, columns = [(''A'', replicate 981 0 @ replicate 327 0)]\<rparr>"
    unfolding example_binary_def by (rule example_table)
  have f1: "fit_transform example_scaler st \<lparr>nrows = 981, columns = [(''A'', replicate 981 1)]\<rparr>
            = Inr (Some [981], [replicate 981 (- 980)])" for st
    using example_fit [of 981 st "''A''"] by simp
  have f2: "fit_transform example_scaler st \<lparr>nrows = 327, columns = [(''A'', replicate 327 1)]\<rparr>
            = Inr (Some [327], [replicate 327 (- 326)])" for st
    using example_fit [of 327 st "''A''"] by simp
  have g1: "get_train_set \<lparr>nrows = 981, columns = [(''A'', replicate 981 (- 980))]\<rparr>
              \<lparr>nrows = 981, columns = [(''A'', replicate 981 0)]\<rparr>
            = Inr (replicate 741 (replicate 240 (- 980 :: int)), replicate 741 (0 :: int))"
    using get_train_set_constant [of 981 "''A''" "- 980 :: int" "0 :: int"] by simp
  have g2: "get_train_set \<lparr>nrows = 327, columns = [(''A'', replicate 327 (- 326))]\<rparr>
              \<lparr>nrows = 327, columns = [(''A'', replicate 327 0)]\<rparr>
            = Inr (replicate 87 (replicate 240 (- 326 :: int)), replicate 87 (0 :: int))"
    using get_train_set_constant [of 327 "''A''" "- 326 :: int" "0 :: int"] by simp
  show ?thesis
    unfolding all_data_LSTM_def Let_def example_split ebind_return prod.case ix
    unfolding R B example_segments f1 ebind_return prod.case example_set_rows
      example_segments f2 g1 g2
    by simp
qed

theorem all_data_LSTM_scaling_witness:
  "all_data_LSTM example_scaler example_returns example_binary 0 981
   = Inr (replicate 741 (replicate 240 [- 980]), replicate 741 0,
          replicate 87 (replicate 240 [- 326]), replicate 87 0)
   \<and> (\<exists>periods_returns periods_binary T1_input T1_target train test Xtr Xte.
      split_Tperiod example_returns example_binary 1308 327 = Inr (periods_returns, periods_binary)
    \<and> py_index periods_returns 0 = Inr T1_input
    \<and> py_index periods_binary 0 = Inr T1_target
    \<and> standardize example_scaler (df_slice None (Some 981) T1_input) = Inr train
    \<and> standardize example_scaler (df_slice (Some 981) None T1_input) = Inr test
    \<and> get_train_set train (df_slice None (Some 981) T1_target) = Inr (Xtr, replicate 741 0)
    \<and> get_train_set test (df_slice (Some 981) None T1_target) = Inr (Xte, replicate 87 0)
    \<and> replicate 741 (replicate 240 [- 980]) = map (map (\<lambda>x. [x])) Xtr
    \<and> replicate 87 (replicate 240 [- 326]) = map (map (\<lambda>x. [x])) Xte)
   \<and> standardize example_scaler (df_slice (Some 981) None example_returns)
       = Inr \<lparr>nrows = 327, columns = [(''A'', replicate 327 (- 326))]\<rparr>"
proof -
  have "df_slice (Some 981) None example_returns
        = \<lparr>nrows = 327, columns = [(''A'', replicate 327 1)]\<rparr>"
    unfolding example_returns_def example_table [of "''A''" 1] by (rule example_segments(2))
  then have "standardize example_scaler (df_slice (Some 981) None example_returns)
             = Inr \<lparr>nrows = 327, columns = [(''A'', replicate 327 (- 326))]\<rparr>"
    by (simp add: standardize_def example_scaler_def sum_list_replicate)
  then show ?thesis
    using all_data_LSTM_example all_data_LSTM_scaling [OF all_data_LSTM_example example_wf(1)]
    by blast
qed

lemma constant_features:
  assumes "\<forall>j \<in> set idx. j < n"
  shows "map (\<lambda>j. hd (replicate n [c] ! j)) idx = replicate (length idx) c"
proof -
  have "map (\<lambda>j. hd (replicate n [c] ! j)) idx = map (\<lambda>j. c) idx"
    using assms by (intro map_cong) simp_all
  then show ?thesis
    by (simp add: map_replicate_const)
qed

theorem all_data_DNN_features_witness:
  "all_data_DNN example_scaler example_returns example_binary 0 5
   = Inr (replicate 741 (replicate 31 (- 980)), replicate 741 0,
          replicate 87 (replicate 31 (- 326)), replicate 87 0)"
proof -
  obtain D_train D_test
    where r: "all_data_DNN example_scaler example_returns example_binary 0 5
              = Inr (D_train, replicate 741 0, D_test, replicate 87 0)"
      and tr: "D_train = map (\<lambda>s. map (\<lambda>j. hd (s ! j)) dnn_features)
                           (replicate 741 (replicate 240 [- 980]))"
      and te: "D_test = map (\<lambda>s. map (\<lambda>j. hd (s ! j)) dnn_features)
                          (replicate 87 (replicate 240 [- 326]))"
    using all_data_DNN_features [OF all_data_LSTM_example, of 5] by blast
  have "D_train = replicate 741 (replicate 31 (- 980))"
    unfolding tr map_replicate constant_features [OF dnn_features_bounds(1)]
      dnn_features_bounds(2) by (rule refl)
  moreover have "D_test = replicate 87 (replicate 31 (- 326))"
    unfolding te map_replicate constant_features [OF dnn_features_bounds(1)]
      dnn_features_bounds(2) by (rule refl)
  ultimately show ?thesis
    using r by simp
qed

end
